theory Spec2Isabelle
  imports Complex_Main "HOL-Library.Sublist" "HOL-Library.Word" "HOL-Library.Log_Nat"
begin

section \<open>Values crossing the service boundary\<close>

text \<open>
  The transcription services of the repository are two JavaScript classes:
  \<^verbatim>\<open>PythonTranscriptionService\<close> (the subprocess strategy) and
  \<^verbatim>\<open>TranscriptionService\<close> (the selector, the OpenAI strategy and the mock).
  Their effects are made explicit: the file system and the console are a \<open>world\<close> that
  every operation takes and returns, and everything the outside decides (the clock, the
  random numbers, the child process, the parser, the remote API, failing file operations)
  is read from an \<open>env\<close>. A promise is the value it settles to.

  A JavaScript number is the real number it stands for, and arithmetic on numbers rounds
  as IEEE 754 binary64 does (see the section on double arithmetic). A string is the list of its
  code units, each below 256.
\<close>

type_synonym buffer = "8 word list"

text \<open>The option bag of a call: a missing key is \<open>None\<close>.\<close>

record options =
  opt_language :: "string option"
  opt_outputFormat :: "string option"
  opt_responseFormat :: "string option"
  opt_temperature :: "real option"

text \<open>
  Thrown values: \<^verbatim>\<open>new Error(msg)\<close>, and the \<^verbatim>\<open>TypeError\<close> and
  \<^verbatim>\<open>SyntaxError\<close> the engine and \<^verbatim>\<open>JSON.parse\<close> throw.
\<close>

datatype js_error = Error string | TypeError string | SyntaxError string

fun message :: "js_error \<Rightarrow> string" where
  "message (Error m) = m"
| "message (TypeError m) = m"
| "message (SyntaxError m) = m"

text \<open>
  What a promise comes to: resolved, rejected, or never settled because the callback that
  should settle it threw (the exception is then uncaught).
\<close>

datatype 'a outcome = Resolved 'a | Rejected js_error | Uncaught js_error

record segment =
  seg_start :: real
  seg_end :: real
  word :: "string option"
  speaker :: "string option"
  seg_confidence :: "real option"

text \<open>
  The structured output of the transcription script, as \<^verbatim>\<open>JSON.parse\<close> hands it
  over: a mapping with the keys the service reads, each possibly missing. \<open>JsonNull\<close> is
  the JSON value \<^verbatim>\<open>null\<close> (reading a property of it throws), \<open>JsonScalar\<close> any
  number, string, boolean or array (reading one of the keys below gives
  \<^verbatim>\<open>undefined\<close>).
\<close>

record py_output =
  out_markdown :: "string option"
  out_segments :: "segment list option"
  out_speakers :: "string list option"
  out_duration :: "real option"
  out_total_words :: "nat option"

datatype parsed = JsonNull | JsonScalar | JsonMapping py_output

datatype py_result = PyText string | PyJson parsed

text \<open>
  The result object. A key the strategy does not write, or writes as \<^verbatim>\<open>null\<close>, is
  \<open>None\<close>.
\<close>

record transcription_result =
  res_text :: string
  res_language :: string
  res_confidence :: real
  res_speakers :: "string list option"
  res_segments :: "segment list option"
  res_duration :: "real option"
  res_totalWords :: "nat option"
  res_pipeline :: "string option"
  res_raw :: "parsed option"
  res_mock :: "bool option"

text \<open>The request sent to, and the response read from, the hosted Whisper API.\<close>

record api_request =
  req_file :: string
  req_model :: string
  req_language :: string
  req_response_format :: string
  req_temperature :: real

record api_response =
  resp_text :: string
  resp_language :: "string option"
  resp_duration :: "real option"
  resp_segments :: "segment list option"

text \<open>
  The child process. \<^verbatim>\<open>spawn\<close> throws; or the process could not be started:
  it emits \<^verbatim>\<open>error\<close> and then \<^verbatim>\<open>close\<close> with the negative error number
  as its code, both handlers run, and the third component says whether the rejection of
  the \<^verbatim>\<open>error\<close> handler comes before the settlement of the \<^verbatim>\<open>close\<close>
  handler; or it emits \<^verbatim>\<open>close\<close> with its exit code (\<^verbatim>\<open>null\<close> when a
  signal ended it), after its standard output and standard error have been collected.
\<close>

datatype process_outcome =
  SpawnThrew js_error
| SpawnError string int bool
| Closed "int option" string string

datatype probe_outcome = ProbeError | ProbeClosed "int option" string

record world =
  files :: "string \<rightharpoonup> buffer"
  console :: "string list"

record env =
  now :: nat
  random_suffix :: string
  write_error :: "string \<Rightarrow> string option"
  unlink_error :: "string \<Rightarrow> string option"
  spawned :: "string list \<Rightarrow> process_outcome"
  inspect :: "js_error \<Rightarrow> string"
  probe :: probe_outcome
  json_parse :: "string \<Rightarrow> string + parsed"
  api_call :: "api_request \<Rightarrow> js_error + api_response"
  rnd_delay :: real
  rnd_choice :: real
  rnd_confidence :: real
  env_OPENAI_API_KEY :: "string option"
  env_HF_TOKEN :: "string option"

record python_service =
  pythonScript :: string
  tempDir :: string
  hfToken :: "string option"

record transcription_service =
  pythonService :: python_service
  useOpenAI :: bool
  preferredService :: string

text \<open>Objects whose keys matter are association lists of key and value.\<close>

datatype js_value = JBool bool | JStr string | JObj "(string \<times> js_value) list"

fun keys :: "js_value \<Rightarrow> string list" where
  "keys (JObj kvs) = map fst kvs"
| "keys _ = []"

fun get :: "js_value \<Rightarrow> string \<Rightarrow> js_value option" where
  "get (JObj kvs) k = map_of kvs k"
| "get _ k = None"

section \<open>Double arithmetic\<close>

text \<open>
  \<open>round64\<close> rounds a real to the nearest binary64 number, ties to the even
  significand: \<open>expo\<close> is the binary exponent of a positive real, the spacing of the
  numbers around it is \<open>2\<close> to the power of that exponent less 52 (the exponent is not
  taken below -1022, which gives the subnormal numbers their spacing), and \<open>rhe\<close>
  rounds the quotient by the spacing to an integer, a half going to the even neighbour.
  Overflow to infinity is left out: the numbers computed here stay far below
  \<open>2 ^ 1024\<close>. A sum, product or quotient is the rounded exact result, and a decimal
  literal is the rounded decimal.
\<close>

definition rhe :: "real \<Rightarrow> int" where
  "rhe y =
     (let f = \<lfloor>y\<rfloor> in
      if y - of_int f < 1 / 2 then f
      else if 1 / 2 < y - of_int f then f + 1
      else if even f then f else f + 1)"

definition expo :: "real \<Rightarrow> int" where
  "expo x = (if 1 \<le> x then bitlen \<lfloor>x\<rfloor> - 1 else - bitlen (\<lceil>1 / x\<rceil> - 1))"

definition ulp_exp :: "real \<Rightarrow> int" where
  "ulp_exp x = max (expo x) (- 1022) - 52"

definition round64 :: "real \<Rightarrow> real" where
  "round64 x =
     (if x = 0 then 0
      else sgn x * (of_int (rhe (\<bar>x\<bar> / 2 powi ulp_exp \<bar>x\<bar>)) * 2 powi ulp_exp \<bar>x\<bar>))"

definition is_double :: "real \<Rightarrow> bool" where
  "is_double x = (round64 x = x)"

definition lit :: "real \<Rightarrow> real" where
  "lit x = round64 x"

definition fadd :: "real \<Rightarrow> real \<Rightarrow> real" where
  "fadd x y = round64 (x + y)"

definition fmul :: "real \<Rightarrow> real \<Rightarrow> real" where
  "fmul x y = round64 (x * y)"

definition fdiv :: "real \<Rightarrow> real \<Rightarrow> real" where
  "fdiv x y = round64 (x / y)"

section \<open>Helpers of the language\<close>

fun show_nat :: "nat \<Rightarrow> string" where
  "show_nat n =
     (if n < 10 then [''0123456789'' ! n]
      else show_nat (n div 10) @ [''0123456789'' ! (n mod 10)])"

declare show_nat.simps [simp del]

text \<open>\<^verbatim>\<open>${code}\<close> for an exit code.\<close>

definition show_code :: "int option \<Rightarrow> string" where
  "show_code c =
     (case c of
        None \<Rightarrow> ''null''
      | Some i \<Rightarrow> (if i < 0 then ''-'' @ show_nat (nat (- i)) else show_nat (nat i)))"

text \<open>Truthiness of a string that may be \<^verbatim>\<open>undefined\<close>, and \<^verbatim>\<open>a || b\<close> on such.\<close>

definition truthy :: "string option \<Rightarrow> bool" where
  "truthy s = (case s of None \<Rightarrow> False | Some t \<Rightarrow> t \<noteq> [])"

definition js_or :: "string option \<Rightarrow> string \<Rightarrow> string" where
  "js_or a b = (case a of None \<Rightarrow> b | Some t \<Rightarrow> (if t \<noteq> [] then t else b))"

definition or_default :: "'a option \<Rightarrow> 'a \<Rightarrow> 'a" where
  "or_default a d = (case a of None \<Rightarrow> d | Some v \<Rightarrow> v)"

text \<open>\<^verbatim>\<open>Array.prototype.join\<close>: a missing element prints as the empty string.\<close>

fun join :: "string \<Rightarrow> string option list \<Rightarrow> string" where
  "join sep [] = []"
| "join sep [x] = or_default x []"
| "join sep (x # y # ys) = or_default x [] @ sep @ join sep (y # ys)"

text \<open>
  The white space \<^verbatim>\<open>String.prototype.trim\<close> strips, among the code units below
  256: tab, line feed, vertical tab, form feed, carriage return, space and no-break space.
\<close>

definition is_space :: "char \<Rightarrow> bool" where
  "is_space c =
     (c \<in> set [CHR '' '', CHR 0x09, CHR 0x0A, CHR 0x0B, CHR 0x0C, CHR 0x0D, CHR 0xA0])"

definition trim :: "string \<Rightarrow> string" where
  "trim s = rev (dropWhile is_space (rev (dropWhile is_space s)))"

definition log_line :: "world \<Rightarrow> string \<Rightarrow> world" where
  "log_line w l = w\<lparr>console := console w @ [l]\<rparr>"

definition path_join :: "string \<Rightarrow> string \<Rightarrow> string" where
  "path_join dir name = dir @ ''/'' @ name"

section \<open>PythonTranscriptionService: the subprocess strategy\<close>

definition new_PythonTranscriptionService :: "env \<Rightarrow> python_service" where
  "new_PythonTranscriptionService e =
     \<lparr>pythonScript = ''transcription_pipeline.py'',
      tempDir = ''temp_audio_transa'',
      hfToken = env_HF_TOKEN e\<rparr>"

text \<open>
  \<^verbatim>\<open>saveAudioBuffer\<close>: the file name is built from the clock and a random suffix; a
  failing write rejects and leaves no file.
\<close>

definition saveAudioBuffer ::
  "python_service \<Rightarrow> env \<Rightarrow> world \<Rightarrow> buffer \<Rightarrow> world \<times> (js_error + string)" where
  "saveAudioBuffer svc e w audioBuffer =
     (let tempFileName = ''audio_'' @ show_nat (now e) @ ''_'' @ random_suffix e @ ''.wav'';
          tempFilePath = path_join (tempDir svc) tempFileName
      in case write_error e tempFilePath of
           Some msg \<Rightarrow> (w, Inl (Error (''Failed to save audio buffer: '' @ msg)))
         | None \<Rightarrow> (w\<lparr>files := (files w)(tempFilePath \<mapsto> audioBuffer)\<rparr>, Inr tempFilePath))"

text \<open>\<^verbatim>\<open>cleanupTempFile\<close> never rejects: a failing unlink is a warning on the console.\<close>

definition cleanupTempFile :: "env \<Rightarrow> world \<Rightarrow> string \<Rightarrow> world" where
  "cleanupTempFile e w filePath =
     (if files w filePath \<noteq> None then
        (case unlink_error e filePath of
           Some msg \<Rightarrow> log_line w (''Failed to cleanup temp file '' @ filePath @ '': '' @ msg)
         | None \<Rightarrow> w\<lparr>files := (files w)(filePath := None)\<rparr>)
      else w)"

text \<open>
  \<^verbatim>\<open>parsePythonOutput(output, outputFormat = 'json')\<close>: markdown output is the trimmed
  text; anything else goes through \<^verbatim>\<open>JSON.parse\<close>, whose \<^verbatim>\<open>SyntaxError\<close> is
  printed on the console (as the engine prints an error object), followed by the raw
  output, and replaced by an \<^verbatim>\<open>Error\<close> under a message of the service's own.
\<close>

definition parsePythonOutput ::
  "env \<Rightarrow> world \<Rightarrow> string \<Rightarrow> string option \<Rightarrow> world \<times> (js_error + py_result)" where
  "parsePythonOutput e w output outputFormat =
     (if or_default outputFormat ''json'' = ''markdown'' then (w, Inr (PyText (trim output)))
      else
        (case json_parse e output of
           Inr v \<Rightarrow> (w, Inr (PyJson v))
         | Inl msg \<Rightarrow>
             (log_line
                (log_line w (''Failed to parse Python output: '' @ inspect e (SyntaxError msg)))
                (''Raw output: '' @ output),
              Inl (Error (''Invalid output from Python script: '' @ msg)))))"

fun fields_of :: "parsed \<Rightarrow> js_error + py_output" where
  "fields_of JsonNull =
     Inl (TypeError (''Cannot read properties of null (reading '' @ [CHR 0x27] @ ''markdown''
                     @ [CHR 0x27] @ '')''))"
| "fields_of JsonScalar =
     Inr \<lparr>out_markdown = None, out_segments = None, out_speakers = None,
          out_duration = None, out_total_words = None\<rparr>"
| "fields_of (JsonMapping out) = Inr out"

text \<open>
  The two result objects of the \<^verbatim>\<open>close\<close> handler. In the structured one,
  \<^verbatim>\<open>text: result.markdown || result.segments?.map(w => w.word).join(' ') || ''\<close>.
\<close>

definition markdown_result :: "string \<Rightarrow> transcription_result" where
  "markdown_result result =
     \<lparr>res_text = result,
      res_language = ''sv'',
      res_confidence = lit 0.9,
      res_speakers = Some [],
      res_segments = Some [],
      res_duration = None,
      res_totalWords = None,
      res_pipeline = Some ''python-local'',
      res_raw = None,
      res_mock = None\<rparr>"

definition structured_text :: "py_output \<Rightarrow> string" where
  "structured_text out =
     js_or (out_markdown out)
       (js_or (map_option (\<lambda>segs. join '' '' (map word segs)) (out_segments out)) [])"

definition structured_result :: "parsed \<Rightarrow> py_output \<Rightarrow> transcription_result" where
  "structured_result result out =
     \<lparr>res_text = structured_text out,
      res_language = ''sv'',
      res_confidence = lit 0.9,
      res_speakers = Some (or_default (out_speakers out) []),
      res_segments = Some (or_default (out_segments out) []),
      res_duration = Some (or_default (out_duration out) 0),
      res_totalWords = Some (or_default (out_total_words out) 0),
      res_pipeline = Some ''python-local'',
      res_raw = Some result,
      res_mock = None\<rparr>"

text \<open>
  The \<^verbatim>\<open>close\<close> handler: clean up, then reject on a non-zero code, else parse and
  resolve. \<^verbatim>\<open>parsePythonOutput\<close> returns a string exactly when the format is
  markdown, so the two mixed cases below are never reached.
\<close>

definition on_close ::
  "env \<Rightarrow> world \<Rightarrow> options \<Rightarrow> string \<Rightarrow> int option \<Rightarrow> string \<Rightarrow> string \<Rightarrow>
   world \<times> transcription_result outcome" where
  "on_close e w options tempFilePath code stdout stderr =
     (let w1 = cleanupTempFile e w tempFilePath in
      if code \<noteq> Some 0 then
        (log_line w1 (''Python script error: '' @ stderr),
         Rejected (Error (''Python script failed with code '' @ show_code code @ '': '' @ stderr)))
      else
        (case parsePythonOutput e w1 stdout (opt_outputFormat options) of
           (w2, Inl err) \<Rightarrow> (w2, Rejected err)
         | (w2, Inr result) \<Rightarrow>
             (if opt_outputFormat options = Some ''markdown'' then
                (case result of
                   PyText t \<Rightarrow> (w2, Resolved (markdown_result t))
                 | PyJson v \<Rightarrow> (w2, Rejected (TypeError ''not reached'')))
              else
                (case result of
                   PyText t \<Rightarrow> (w2, Rejected (TypeError ''not reached''))
                 | PyJson v \<Rightarrow>
                     (case fields_of v of
                        Inl err \<Rightarrow> (w2, Rejected err)
                      | Inr out \<Rightarrow> (w2, Resolved (structured_result v out)))))))"

definition spawn_args :: "python_service \<Rightarrow> options \<Rightarrow> string \<Rightarrow> string list" where
  "spawn_args svc options tempFilePath =
     [pythonScript svc, tempFilePath]
     @ (if truthy (hfToken svc) then [''--hf-token'', or_default (hfToken svc) []] else [])
     @ (if truthy (opt_outputFormat options)
        then [''--output'', or_default (opt_outputFormat options) []] else [])"

text \<open>
  \<^verbatim>\<open>transcribeAudio\<close> of the subprocess service. When the process cannot be started
  both handlers run: each awaits the cleanup (the two are taken in the order of the
  events), the \<^verbatim>\<open>close\<close> handler does what it does on any code, and the promise
  keeps the settlement that came first.
\<close>

definition py_transcribeAudio ::
  "python_service \<Rightarrow> env \<Rightarrow> world \<Rightarrow> buffer \<Rightarrow> options \<Rightarrow>
   world \<times> transcription_result outcome" where
  "py_transcribeAudio svc e w audioBuffer options =
     (case saveAudioBuffer svc e w audioBuffer of
        (w1, Inl err) \<Rightarrow> (w1, Rejected err)
      | (w1, Inr tempFilePath) \<Rightarrow>
          (case spawned e (spawn_args svc options tempFilePath) of
             SpawnThrew err \<Rightarrow> (w1, Rejected err)
           | SpawnError msg code error_first \<Rightarrow>
               (let w2 = cleanupTempFile e w1 tempFilePath;
                    closed = on_close e w2 options tempFilePath (Some code) [] []
                in (fst closed,
                    if error_first
                    then Rejected (Error (''Failed to start Python process: '' @ msg))
                    else snd closed))
           | Closed code stdout stderr \<Rightarrow>
               on_close e w1 options tempFilePath code stdout stderr))"

definition isAvailable :: "env \<Rightarrow> bool" where
  "isAvailable e =
     (case probe e of
        ProbeError \<Rightarrow> False
      | ProbeClosed code stderr \<Rightarrow> code = Some 0 \<and> \<not> sublist ''ModuleNotFoundError'' stderr)"

definition py_getStatus :: "python_service \<Rightarrow> env \<Rightarrow> js_value" where
  "py_getStatus svc e =
     JObj [(''available'', JBool (isAvailable e)),
           (''pythonScript'', JStr (pythonScript svc)),
           (''tempDir'', JStr (tempDir svc)),
           (''hfTokenConfigured'', JBool (truthy (hfToken svc))),
           (''service'', JStr ''python-local-transcription'')]"

section \<open>TranscriptionService: selector, OpenAI strategy, mock\<close>

definition new_TranscriptionService :: "env \<Rightarrow> transcription_service" where
  "new_TranscriptionService e =
     \<lparr>pythonService = new_PythonTranscriptionService e,
      useOpenAI = truthy (env_OPENAI_API_KEY e),
      preferredService = ''python''\<rparr>"

text \<open>
  \<^verbatim>\<open>calculateConfidence\<close>, statement by statement. \<^verbatim>\<open>text.match(/[.,!?;]/g)\<close>
  is the list of the characters of the text that the class matches.
\<close>

definition calculateConfidence :: "string \<Rightarrow> real" where
  "calculateConfidence t =
     (if t = [] \<or> length t = 0 then 0
      else
        (let confidence = lit 0.5;
             confidence = fadd confidence (min (fdiv (real (length t)) 100) (lit 0.3));
             punctuationCount = length (filter (\<lambda>c. c \<in> set ''.,!?;'') t);
             confidence = fadd confidence (min (fmul (real punctuationCount) (lit 0.1)) (lit 0.2))
         in min confidence 1))"

definition nonzero :: "real option \<Rightarrow> real option" where
  "nonzero d = (case d of None \<Rightarrow> None | Some x \<Rightarrow> (if x = 0 then None else Some x))"

text \<open>
  \<^verbatim>\<open>transcribeWithOpenAI\<close>: write the file, call the API, unlink, build the result.
  Whatever throws inside the \<^verbatim>\<open>try\<close> is logged and thrown again by the
  \<^verbatim>\<open>catch\<close>; the unlink is a statement of the \<^verbatim>\<open>try\<close> after the call.
  Directories are not part of the world, so the creation of \<^verbatim>\<open>temp\<close> is left out.
\<close>

definition transcribeWithOpenAI ::
  "env \<Rightarrow> world \<Rightarrow> buffer \<Rightarrow> options \<Rightarrow> world \<times> transcription_result outcome" where
  "transcribeWithOpenAI e w audioBuffer options =
     (let language = or_default (opt_language options) ''en'';
          responseFormat = or_default (opt_responseFormat options) ''json'';
          temperature = or_default (opt_temperature options) 0;
          tempFileName = ''temp_audio_'' @ show_nat (now e) @ ''.wav'';
          tempFilePath = path_join ''temp'' tempFileName
      in case write_error e tempFilePath of
           Some msg \<Rightarrow>
             (log_line w (''OpenAI transcription error: '' @ inspect e (Error msg)),
              Rejected (Error msg))
         | None \<Rightarrow>
             (let w1 = w\<lparr>files := (files w)(tempFilePath \<mapsto> audioBuffer)\<rparr> in
              case api_call e
                     \<lparr>req_file = tempFilePath, req_model = ''whisper-1'',
                      req_language = language, req_response_format = responseFormat,
                      req_temperature = temperature\<rparr> of
                Inl err \<Rightarrow>
                  (log_line w1 (''OpenAI transcription error: '' @ inspect e err),
                   Rejected err)
              | Inr response \<Rightarrow>
                  (case unlink_error e tempFilePath of
                     Some msg \<Rightarrow>
                       (log_line w1 (''OpenAI transcription error: '' @ inspect e (Error msg)),
                        Rejected (Error msg))
                   | None \<Rightarrow>
                       (w1\<lparr>files := (files w1)(tempFilePath := None)\<rparr>,
                        Resolved
                          \<lparr>res_text = resp_text response,
                           res_language = js_or (resp_language response) language,
                           res_confidence = calculateConfidence (resp_text response),
                           res_speakers = None,
                           res_segments = resp_segments response,
                           res_duration = nonzero (resp_duration response),
                           res_totalWords = None,
                           res_pipeline = None,
                           res_raw = None,
                           res_mock = None\<rparr>))))"

definition mockResponses :: "string list" where
  "mockResponses =
     [''Hello, this is a test transcription of the audio.'',
      ''The audio transcription feature is working correctly.'',
      ''This is sample text that would normally come from speech recognition.'',
      ''Audio processing and transcription is now active.'',
      ''Testing the real-time transcription capabilities.'']"

text \<open>
  \<^verbatim>\<open>getMockTranscription\<close> resolves, after \<open>randomDelay\<close> milliseconds, from inside a
  timer callback. The callback reads \<^verbatim>\<open>audioBuffer.length\<close>: on \<^verbatim>\<open>null\<close> it
  throws, nobody catches it, and the promise is never settled. The three random numbers
  are \<^verbatim>\<open>Math.random()\<close>, each a double in \<open>[0, 1)\<close>. The result is paired with
  the delay.
\<close>

definition getMockTranscription ::
  "env \<Rightarrow> buffer option \<Rightarrow> options \<Rightarrow> (real \<times> transcription_result) outcome" where
  "getMockTranscription e audioBuffer options =
     (let randomDelay = fadd (fmul (rnd_delay e) 2000) 1000;
          randomResponse =
            mockResponses ! nat \<lfloor>fmul (rnd_choice e) (real (length mockResponses))\<rfloor>
      in case audioBuffer of
           None \<Rightarrow>
             Uncaught (TypeError (''Cannot read properties of null (reading '' @ [CHR 0x27]
                                  @ ''length'' @ [CHR 0x27] @ '')''))
         | Some buf \<Rightarrow>
             Resolved
               (randomDelay,
                \<lparr>res_text = randomResponse,
                 res_language = js_or (opt_language options) ''en'',
                 res_confidence = fadd (fmul (rnd_confidence e) (lit 0.3)) (lit 0.7),
                 res_speakers = None,
                 res_segments = None,
                 res_duration = Some (fdiv (real (length buf)) 16000),
                 res_totalWords = None,
                 res_pipeline = None,
                 res_raw = None,
                 res_mock = Some True\<rparr>))"

text \<open>
  The \<^verbatim>\<open>catch\<close> of \<^verbatim>\<open>transcribeAudio\<close>: any rejection awaited inside its
  \<^verbatim>\<open>try\<close> is logged and replaced by a new error quoting the message.
\<close>

definition catch_all ::
  "env \<Rightarrow> world \<times> transcription_result outcome \<Rightarrow> world \<times> transcription_result outcome"
  where
  "catch_all e r =
     (case r of
        (w, Rejected err) \<Rightarrow>
          (log_line w (''Transcription error: '' @ inspect e err),
           Rejected (Error (''Transcription failed: '' @ message err)))
      | (w, other) \<Rightarrow> (w, other))"

text \<open>
  \<^verbatim>\<open>transcribeAudio\<close>, the selector. The Python pipeline runs first when it is the
  preferred service (the constructor makes it so); on its failure the OpenAI strategy
  runs if a key was configured, else the Python error is thrown again. The mock is
  returned, not awaited, on the branch where Python is not preferred and no key is
  configured.
\<close>

definition transcribeAudio ::
  "transcription_service \<Rightarrow> env \<Rightarrow> world \<Rightarrow> buffer \<Rightarrow> options \<Rightarrow>
   world \<times> transcription_result outcome" where
  "transcribeAudio svc e w audioBuffer options =
     (if preferredService svc = ''python'' then
        catch_all e
          (case py_transcribeAudio (pythonService svc) e w audioBuffer options of
             (w1, Resolved pythonResult) \<Rightarrow>
               (log_line w1 ''Used Python local pipeline for transcription'',
                Resolved pythonResult)
           | (w1, Rejected pythonError) \<Rightarrow>
               (let w2 = log_line w1
                           (''Python pipeline failed, falling back to OpenAI: ''
                            @ message pythonError)
                in if useOpenAI svc then
                     (case transcribeWithOpenAI e w2 audioBuffer options of
                        (w3, Resolved openaiResult) \<Rightarrow>
                          (log_line w3 ''Used OpenAI API as fallback'', Resolved openaiResult)
                      | (w3, other) \<Rightarrow> (w3, other))
                   else (w2, Rejected pythonError))
           | (w1, Uncaught err) \<Rightarrow> (w1, Uncaught err))
      else if useOpenAI svc then catch_all e (transcribeWithOpenAI e w audioBuffer options)
      else (w, map_outcome snd (getMockTranscription e (Some audioBuffer) options)))"

fun is_true :: "js_value option \<Rightarrow> bool" where
  "is_true (Some (JBool b)) = b"
| "is_true (Some (JStr s)) = (s \<noteq> [])"
| "is_true (Some (JObj kvs)) = True"
| "is_true None = False"

definition isConfigured :: "transcription_service \<Rightarrow> env \<Rightarrow> bool" where
  "isConfigured svc e =
     (let pythonAvailable = isAvailable e;
          openaiConfigured = (useOpenAI svc \<and> truthy (env_OPENAI_API_KEY e))
      in pythonAvailable \<or> openaiConfigured)"

definition getServiceStatus :: "transcription_service \<Rightarrow> env \<Rightarrow> js_value" where
  "getServiceStatus svc e =
     (let pythonStatus = py_getStatus (pythonService svc) e;
          openaiConfigured = (useOpenAI svc \<and> truthy (env_OPENAI_API_KEY e))
      in JObj [(''preferredService'', JStr (preferredService svc)),
               (''pythonService'', pythonStatus),
               (''openaiConfigured'', JBool openaiConfigured),
               (''overallConfigured'',
                  JBool (is_true (get pythonStatus ''available'') \<or> openaiConfigured))])"

section \<open>A concrete run\<close>

text \<open>
  Inputs at which the operations are evaluated below: an empty option bag, an empty file
  system, and an environment in which no file operation fails, the script exits with
  code 0 and prints \<^verbatim>\<open>{}\<close>, the parser knows that one text, the console prints
  an error as its name and message, the API refuses the connection, and no credential is
  set.
\<close>

fun name_and_message :: "js_error \<Rightarrow> string" where
  "name_and_message (Error m) = ''Error: '' @ m"
| "name_and_message (TypeError m) = ''TypeError: '' @ m"
| "name_and_message (SyntaxError m) = ''SyntaxError: '' @ m"

definition no_options :: options where
  "no_options =
     \<lparr>opt_language = None, opt_outputFormat = None, opt_responseFormat = None,
      opt_temperature = None\<rparr>"

definition empty_world :: world where
  "empty_world = \<lparr>files = Map.empty, console = []\<rparr>"

definition no_fields :: py_output where
  "no_fields =
     \<lparr>out_markdown = None, out_segments = None, out_speakers = None,
      out_duration = None, out_total_words = None\<rparr>"

definition plain_env :: env where
  "plain_env =
     \<lparr>now = 1700000000000,
      random_suffix = ''k3j9x0q1z'',
      write_error = (\<lambda>p. None),
      unlink_error = (\<lambda>p. None),
      spawned = (\<lambda>args. Closed (Some 0) ''{}'' []),
      inspect = name_and_message,
      probe = ProbeError,
      json_parse = (\<lambda>s. if s = ''{}'' then Inr (JsonMapping no_fields)
                          else Inl ''Unexpected token''),
      api_call = (\<lambda>req. Inl (Error ''Connection error.'')),
      rnd_delay = 1 / 2,
      rnd_choice = 1 / 2,
      rnd_confidence = 1 / 2,
      env_OPENAI_API_KEY = None,
      env_HF_TOKEN = None\<rparr>"

text \<open>
  Further inputs: a segment carrying one word, an API response with the text
  \<^verbatim>\<open>hej\<close>, an environment with an API key in which the script exits with code 1
  and writes \<^verbatim>\<open>boom\<close> to its standard error, and one with no key in which the
  interpreter cannot be started.
\<close>

definition seg :: "string \<Rightarrow> segment" where
  "seg s = \<lparr>seg_start = 0, seg_end = 1, word = Some s, speaker = None, seg_confidence = None\<rparr>"

definition hej_response :: api_response where
  "hej_response =
     \<lparr>resp_text = ''hej'', resp_language = None, resp_duration = None, resp_segments = None\<rparr>"

definition keyed_env :: env where
  "keyed_env =
     plain_env\<lparr>env_OPENAI_API_KEY := Some ''sk-test'',
               spawned := (\<lambda>args. Closed (Some 1) [] ''boom'')\<rparr>"

definition bare_env :: env where
  "bare_env =
     plain_env\<lparr>spawned := (\<lambda>args. SpawnError ''spawn python3 ENOENT'' (- 2) True)\<rparr>"

section \<open>Facts about the operations\<close>

subsection \<open>Rounding\<close>

text \<open>
  \<open>rhe\<close> is monotone and fixes the integers; \<open>expo\<close> is the exponent of the binade;
  hence \<open>round64\<close> is monotone on the non-negative reals, and a double in \<open>[0, 1)\<close>
  is at most \<open>1 - 1 / 2 ^ 53\<close>.
\<close>

lemma rhe_of_int: "rhe (of_int n) = n"
  by (simp add: rhe_def)

lemma rhe_bounds: "\<lfloor>y\<rfloor> \<le> rhe y \<and> rhe y \<le> \<lfloor>y\<rfloor> + 1"
  by (simp add: rhe_def Let_def)

lemma rhe_mono: assumes "x \<le> y" shows "rhe x \<le> rhe y"
proof (cases "\<lfloor>x\<rfloor> = \<lfloor>y\<rfloor>")
  case True
  with assms show ?thesis by (auto simp: rhe_def Let_def)
next
  case False
  with assms have "\<lfloor>x\<rfloor> + 1 \<le> \<lfloor>y\<rfloor>"
    using floor_mono [of x y] by linarith
  with rhe_bounds [of x] rhe_bounds [of y] show ?thesis by linarith
qed

lemma rhe_nonneg: "0 \<le> y \<Longrightarrow> 0 \<le> rhe y"
  using rhe_bounds [of y] by (simp add: order_trans [of 0 "\<lfloor>y\<rfloor>"])

lemma expo_bounds:
  assumes "0 < x"
  shows "2 powi expo x \<le> x \<and> x < 2 powi (expo x + 1)"
proof (cases "1 \<le> x")
  case True
  let ?n = "\<lfloor>x\<rfloor>"
  have n: "0 < ?n" using True by simp
  from bitlen_bounds [OF n]
  have lo: "2 ^ nat (bitlen ?n - 1) \<le> ?n" and hi: "?n < 2 ^ nat (bitlen ?n)" by auto
  have b1: "1 \<le> bitlen ?n" using n by (auto simp: bitlen_alt_def)
  have e: "expo x = bitlen ?n - 1" using True by (simp add: expo_def)
  have "(2::real) powi (bitlen ?n - 1) = 2 ^ nat (bitlen ?n - 1)"
    using b1 by (simp add: power_int_def)
  also have "\<dots> = of_int (2 ^ nat (bitlen ?n - 1))" by simp
  also have "\<dots> \<le> of_int ?n" using lo by (simp only: of_int_le_iff)
  also have "\<dots> \<le> x" by simp
  finally have A: "2 powi expo x \<le> x" by (simp add: e)
  have "?n + 1 \<le> 2 ^ nat (bitlen ?n)" using hi by simp
  then have "of_int (?n + 1) \<le> (of_int (2 ^ nat (bitlen ?n)) :: real)"
    by (simp only: of_int_le_iff)
  then have h1: "real_of_int ?n + 1 \<le> 2 ^ nat (bitlen ?n)" by simp
  have h2: "x < real_of_int ?n + 1" by linarith
  from h1 h2 have "x < 2 ^ nat (bitlen ?n)" by linarith
  moreover have "(2::real) powi (bitlen ?n - 1 + 1) = 2 ^ nat (bitlen ?n)"
    using b1 by (simp add: power_int_def)
  ultimately have B: "x < 2 powi (expo x + 1)" by (simp add: e)
  from A B show ?thesis ..
next
  case False
  then have x1: "x < 1" by simp
  let ?y = "1 / x"
  let ?m = "\<lceil>?y\<rceil> - 1"
  have y1: "1 < ?y" using assms x1 by simp
  then have m: "0 < ?m" by linarith
  have my: "of_int ?m < ?y" and ym: "?y \<le> of_int ?m + 1"
    by linarith+
  from bitlen_bounds [OF m]
  have lo: "2 ^ nat (bitlen ?m - 1) \<le> ?m" and hi: "?m < 2 ^ nat (bitlen ?m)" by auto
  have b1: "1 \<le> bitlen ?m" using m by (auto simp: bitlen_alt_def)
  have e: "expo x = - bitlen ?m" using False by (simp add: expo_def)
  have "?m + 1 \<le> 2 ^ nat (bitlen ?m)" using hi by simp
  then have "of_int (?m + 1) \<le> (of_int (2 ^ nat (bitlen ?m)) :: real)"
    by (simp only: of_int_le_iff)
  then have "real_of_int ?m + 1 \<le> 2 ^ nat (bitlen ?m)" by simp
  with ym have yhi: "?y \<le> 2 ^ nat (bitlen ?m)" by linarith
  have "(of_int (2 ^ nat (bitlen ?m - 1)) :: real) \<le> of_int ?m"
    using lo by (simp only: of_int_le_iff)
  then have "2 ^ nat (bitlen ?m - 1) \<le> real_of_int ?m" by simp
  with my have ylo: "2 ^ nat (bitlen ?m - 1) < ?y" by linarith
  have p1: "(2::real) powi (- bitlen ?m) = 1 / 2 ^ nat (bitlen ?m)"
    using b1 by (simp add: power_int_def field_simps)
  have p2: "(2::real) powi (- bitlen ?m + 1) = 1 / 2 ^ nat (bitlen ?m - 1)"
    using b1 by (simp add: power_int_def field_simps nat_diff_distrib)
  have A: "2 powi expo x \<le> x"
    unfolding e p1 using yhi assms by (simp add: field_simps)
  have B: "x < 2 powi (expo x + 1)"
    unfolding e p2 using ylo assms by (simp add: field_simps)
  from A B show ?thesis ..
qed

lemma powi_less_cancel:
  assumes "(2::real) powi a < 2 powi b" shows "a < b"
proof (rule ccontr)
  assume "\<not> a < b"
  then have "b \<le> a" by simp
  then have "(2::real) powi b \<le> 2 powi a" by (rule power_int_increasing) simp
  with assms show False by simp
qed

lemma expo_eqI:
  assumes "2 powi e \<le> x" and "x < 2 powi (e + 1)"
  shows "expo x = e"
proof -
  have pos: "0 < x"
    using assms(1) zero_less_power_int [of "2::real" e] by linarith
  from expo_bounds [OF pos]
  have lo: "2 powi expo x \<le> x" and hi: "x < 2 powi (expo x + 1)" by auto
  have "(2::real) powi e < 2 powi (expo x + 1)" using assms(1) hi by linarith
  then have a: "e < expo x + 1" by (rule powi_less_cancel)
  have "(2::real) powi expo x < 2 powi (e + 1)" using lo assms(2) by linarith
  then have b: "expo x < e + 1" by (rule powi_less_cancel)
  from a b show ?thesis by linarith
qed

lemma expo_mono:
  assumes "0 < x" and "x \<le> y"
  shows "expo x \<le> expo y"
proof -
  have y: "0 < y" using assms by linarith
  from expo_bounds [OF assms(1)] expo_bounds [OF y]
  have "(2::real) powi expo x < 2 powi (expo y + 1)" using assms(2) by linarith
  then have "expo x < expo y + 1" by (rule powi_less_cancel)
  then show ?thesis by linarith
qed

lemma round64_pos:
  "0 < x \<Longrightarrow> round64 x = of_int (rhe (x / 2 powi ulp_exp x)) * 2 powi ulp_exp x"
  by (simp add: round64_def)

lemma round64_zero: "round64 0 = 0"
  by (simp add: round64_def)

lemma scaled_lt:
  assumes "0 < x"
  shows "x / 2 powi ulp_exp x < 2 ^ 53"
proof -
  have "x < 2 powi (expo x + 1)" using expo_bounds [OF assms] by simp
  also have "\<dots> \<le> 2 powi (ulp_exp x + 53)"
    by (rule power_int_increasing) (simp_all add: ulp_exp_def)
  also have "\<dots> = 2 powi ulp_exp x * 2 ^ 53"
    by (simp add: power_int_add)
  finally show ?thesis by (simp add: pos_divide_less_eq mult.commute)
qed

lemma round64_le_binade:
  assumes "0 < x"
  shows "round64 x \<le> 2 powi (ulp_exp x + 53)"
proof -
  have "rhe (x / 2 powi ulp_exp x) \<le> rhe (of_int (2 ^ 53))"
    by (rule rhe_mono) (use scaled_lt [OF assms] in simp)
  then have "rhe (x / 2 powi ulp_exp x) \<le> 2 ^ 53" by (simp only: rhe_of_int)
  then have "real_of_int (rhe (x / 2 powi ulp_exp x)) \<le> 2 ^ 53"
    by (metis of_int_le_iff of_int_numeral of_int_power)
  then have "real_of_int (rhe (x / 2 powi ulp_exp x)) * 2 powi ulp_exp x
               \<le> 2 ^ 53 * 2 powi ulp_exp x"
    by (rule mult_right_mono) simp
  then show ?thesis by (simp add: round64_pos [OF assms] power_int_add mult.commute)
qed

lemma round64_ge_binade:
  assumes "0 < y" and "- 1022 \<le> expo y"
  shows "2 powi expo y \<le> round64 y"
proof -
  have u: "ulp_exp y = expo y - 52" using assms(2) by (simp add: ulp_exp_def)
  have "2 powi expo y \<le> y" using expo_bounds [OF assms(1)] by simp
  then have "2 powi expo y / 2 powi ulp_exp y \<le> y / 2 powi ulp_exp y"
    by (simp add: divide_right_mono)
  moreover have "(2::real) powi expo y / 2 powi ulp_exp y = 2 ^ 52"
    unfolding u by (simp add: power_int_diff)
  ultimately have "of_int (2 ^ 52) \<le> y / 2 powi ulp_exp y" by simp
  then have "rhe (of_int (2 ^ 52)) \<le> rhe (y / 2 powi ulp_exp y)" by (rule rhe_mono)
  then have "2 ^ 52 \<le> rhe (y / 2 powi ulp_exp y)" by (simp only: rhe_of_int)
  then have "2 ^ 52 \<le> real_of_int (rhe (y / 2 powi ulp_exp y))"
    by (metis of_int_le_iff of_int_numeral of_int_power)
  then have "2 ^ 52 * 2 powi ulp_exp y
               \<le> real_of_int (rhe (y / 2 powi ulp_exp y)) * 2 powi ulp_exp y"
    by (rule mult_right_mono) simp
  moreover have "(2::real) ^ 52 * 2 powi ulp_exp y = 2 powi expo y"
    unfolding u by (simp add: power_int_diff)
  ultimately have "2 powi expo y
               \<le> real_of_int (rhe (y / 2 powi ulp_exp y)) * 2 powi ulp_exp y"
    by linarith
  then show ?thesis by (simp only: round64_pos [OF assms(1)])
qed

lemma round64_mono_pos:
  assumes "0 < x" and "x \<le> y"
  shows "round64 x \<le> round64 y"
proof -
  have y: "0 < y" using assms by linarith
  have le: "ulp_exp x \<le> ulp_exp y"
    using expo_mono [OF assms] by (simp add: ulp_exp_def)
  show ?thesis
  proof (cases "ulp_exp x = ulp_exp y")
    case True
    have "x / 2 powi ulp_exp y \<le> y / 2 powi ulp_exp y"
      using assms(2) by (simp add: divide_right_mono)
    then have "rhe (x / 2 powi ulp_exp y) \<le> rhe (y / 2 powi ulp_exp y)" by (rule rhe_mono)
    then have "real_of_int (rhe (x / 2 powi ulp_exp y)) * 2 powi ulp_exp y
                 \<le> real_of_int (rhe (y / 2 powi ulp_exp y)) * 2 powi ulp_exp y"
      by (intro mult_right_mono) simp_all
    then show ?thesis
      by (simp add: round64_pos [OF assms(1)] round64_pos [OF y] True)
  next
    case False
    with le have lt: "ulp_exp x + 1 \<le> ulp_exp y" by linarith
    then have ey: "- 1022 \<le> expo y" and uy: "ulp_exp y = expo y - 52"
      by (auto simp: ulp_exp_def)
    have "round64 x \<le> 2 powi (ulp_exp x + 53)" by (rule round64_le_binade [OF assms(1)])
    also have "\<dots> \<le> 2 powi expo y"
      by (rule power_int_increasing) (use lt uy in simp_all)
    also have "\<dots> \<le> round64 y" by (rule round64_ge_binade [OF y ey])
    finally show ?thesis .
  qed
qed

lemma round64_nonneg: "0 \<le> x \<Longrightarrow> 0 \<le> round64 x"
  by (cases "x = 0") (simp_all add: round64_zero round64_pos rhe_nonneg)

lemma round64_mono:
  assumes "0 \<le> x" and "x \<le> y"
  shows "round64 x \<le> round64 y"
proof (cases "x = 0")
  case True
  with assms round64_nonneg [of y] show ?thesis by (simp add: round64_zero)
next
  case False
  with assms have "0 < x" by simp
  then show ?thesis using assms(2) by (rule round64_mono_pos)
qed

lemma round64_at:
  assumes "2 powi e \<le> x" and "x < 2 powi (e + 1)" and "- 1022 \<le> e"
  shows "round64 x = of_int (rhe (x / 2 powi (e - 52))) * 2 powi (e - 52)"
proof -
  have pos: "0 < x"
    using assms(1) zero_less_power_int [of "2::real" e] by linarith
  have "expo x = e" using assms(1,2) by (rule expo_eqI)
  then have "ulp_exp x = e - 52" using assms(3) by (simp add: ulp_exp_def)
  then show ?thesis by (simp add: round64_pos [OF pos])
qed

text \<open>Evaluation of the arithmetic on numerals.\<close>

lemma bitlen_numeral_eval:
  "bitlen (numeral n) = bitlen (numeral n div 2) + 1"
  by (subst compute_bitlen) simp

lemma bitlen_one: "bitlen 1 = 1"
  by (subst compute_bitlen) simp

lemmas d64 = round64_def ulp_exp_def expo_def rhe_def bitlen_numeral_eval bitlen_one
  power_int_minus lit_def fadd_def fmul_def fdiv_def

lemma double_below_one:
  assumes "is_double r" and "0 \<le> r" and "r < 1"
  shows "r \<le> 1 - 1 / 2 ^ 53"
proof (cases "r = 0")
  case True
  then show ?thesis by simp
next
  case False
  with assms have pos: "0 < r" by simp
  let ?u = "ulp_exp r"
  let ?n = "rhe (r / 2 powi ?u)"
  have r: "r = of_int ?n * 2 powi ?u"
    using assms(1) round64_pos [OF pos] by (simp add: is_double_def)
  have "2 powi expo r < (2::real) powi 0"
    using expo_bounds [OF pos] assms(3) by simp
  then have "expo r < 0" by (rule powi_less_cancel)
  then have u: "?u \<le> - 53" by (simp add: ulp_exp_def)
  have "real_of_int ?n = r / 2 powi ?u"
    using r by (metis nonzero_mult_div_cancel_right power_int_eq_0_iff zero_neq_numeral)
  with scaled_lt [OF pos] have "real_of_int ?n < 2 ^ 53" by simp
  then have "real_of_int ?n < real_of_int (2 ^ 53)" by simp
  then have "?n < 2 ^ 53" by (simp only: of_int_less_iff)
  then have "?n \<le> 2 ^ 53 - 1" by simp
  then have "real_of_int ?n \<le> real_of_int (2 ^ 53 - 1)" by (simp only: of_int_le_iff)
  then have n: "real_of_int ?n \<le> 2 ^ 53 - 1" by simp
  have n0: "0 \<le> real_of_int ?n"
    using rhe_nonneg [of "r / 2 powi ?u"] pos by simp
  have p: "(2::real) powi ?u \<le> 2 powi (- 53)"
    by (rule power_int_increasing) (use u in simp_all)
  have "r = real_of_int ?n * 2 powi ?u" by (rule r)
  also have "\<dots> \<le> real_of_int ?n * 2 powi (- 53)"
    by (rule mult_left_mono [OF p n0])
  also have "\<dots> \<le> (2 ^ 53 - 1) * 2 powi (- 53)"
    by (rule mult_right_mono [OF n]) simp
  also have "\<dots> = 1 - 1 / 2 ^ 53"
    by (simp add: power_int_minus field_simps)
  finally show ?thesis .
qed

lemma fadd_nonneg: "0 \<le> x \<Longrightarrow> 0 \<le> y \<Longrightarrow> 0 \<le> fadd x y"
  by (simp add: fadd_def round64_nonneg)

text \<open>The two expressions of the mock, and the sum of the confidence heuristic.\<close>

lemma delay_bounds:
  assumes "0 \<le> r" and "r \<le> 1"
  shows "1000 \<le> fadd (fmul r 2000) 1000 \<and> fadd (fmul r 2000) 1000 \<le> 3000"
proof -
  have m0: "0 \<le> fmul r 2000"
    unfolding fmul_def using assms(1) by (intro round64_nonneg) simp
  have "fmul r 2000 \<le> round64 2000"
    unfolding fmul_def using assms by (intro round64_mono) simp_all
  then have m1: "fmul r 2000 \<le> 2000" by (simp add: d64)
  have "round64 1000 \<le> fadd (fmul r 2000) 1000"
    unfolding fadd_def using m0 by (intro round64_mono) simp_all
  then have lo: "1000 \<le> fadd (fmul r 2000) 1000" by (simp add: d64)
  have "fadd (fmul r 2000) 1000 \<le> round64 3000"
    unfolding fadd_def using m0 m1 by (intro round64_mono) simp_all
  then have hi: "fadd (fmul r 2000) 1000 \<le> 3000" by (simp add: d64)
  from lo hi show ?thesis ..
qed

lemma delay_below:
  assumes "0 \<le> r" and "r \<le> 1 - 1 / 2 ^ 52"
  shows "fadd (fmul r 2000) 1000 < 3000"
proof -
  have m0: "0 \<le> fmul r 2000"
    unfolding fmul_def using assms(1) by (intro round64_nonneg) simp
  have "fmul r 2000 \<le> round64 ((1 - 1 / 2 ^ 52) * 2000)"
    unfolding fmul_def using assms by (intro round64_mono) simp_all
  also have "\<dots> = 4398046511103999 / 2 ^ 41" by (simp add: d64)
  finally have m1: "fmul r 2000 \<le> 4398046511103999 / 2 ^ 41" .
  have "fadd (fmul r 2000) 1000 \<le> round64 (4398046511103999 / 2 ^ 41 + 1000)"
    unfolding fadd_def using m0 m1 by (intro round64_mono) simp_all
  also have "\<dots> = 6597069766655999 / 2 ^ 41" by (simp add: d64)
  also have "\<dots> < 3000" by simp
  finally show ?thesis .
qed

lemma confidence_bounds:
  assumes "0 \<le> r" and "r \<le> 1 - 1 / 2 ^ 53"
  shows "lit 0.7 \<le> fadd (fmul r (lit 0.3)) (lit 0.7) \<and> fadd (fmul r (lit 0.3)) (lit 0.7) < 1"
proof -
  have l3: "lit 0.3 = 5404319552844595 / 2 ^ 54" by (simp add: d64)
  have l7: "lit 0.7 = 3152519739159347 / 2 ^ 52" by (simp add: d64)
  have m0: "0 \<le> fmul r (lit 0.3)"
    unfolding fmul_def l3 using assms(1) by (intro round64_nonneg) simp
  have "fmul r (lit 0.3) \<le> round64 ((1 - 1 / 2 ^ 53) * (5404319552844595 / 2 ^ 54))"
    unfolding fmul_def l3 using assms by (intro round64_mono) simp_all
  also have "\<dots> = 2702159776422297 / 2 ^ 53" by (simp add: d64)
  finally have m1: "fmul r (lit 0.3) \<le> 2702159776422297 / 2 ^ 53" .
  have "round64 (3152519739159347 / 2 ^ 52) \<le> fadd (fmul r (lit 0.3)) (lit 0.7)"
    unfolding fadd_def l7 using m0 by (intro round64_mono) simp_all
  moreover have "round64 (3152519739159347 / 2 ^ 52) = 3152519739159347 / 2 ^ 52"
    by (simp add: d64)
  ultimately have lo: "lit 0.7 \<le> fadd (fmul r (lit 0.3)) (lit 0.7)" by (simp add: l7)
  have "fadd (fmul r (lit 0.3)) (lit 0.7)
          \<le> round64 (2702159776422297 / 2 ^ 53 + 3152519739159347 / 2 ^ 52)"
    unfolding fadd_def l7 using m0 m1 by (intro round64_mono) simp_all
  also have "\<dots> = 9007199254740991 / 2 ^ 53" by (simp add: d64)
  also have "\<dots> < 1" by simp
  finally have hi: "fadd (fmul r (lit 0.3)) (lit 0.7) < 1" .
  from lo hi show ?thesis ..
qed

text \<open>The mock always finds one of its five sentences.\<close>

lemma mock_index_in_range:
  assumes "is_double r" and "0 \<le> r" and "r < 1"
  shows "nat \<lfloor>fmul r (real (length mockResponses))\<rfloor> < length mockResponses"
proof -
  have n: "length mockResponses = 5" by (simp add: mockResponses_def)
  have r: "r \<le> 1 - 1 / 2 ^ 53" using assms by (rule double_below_one)
  have "fmul r 5 \<le> round64 ((1 - 1 / 2 ^ 53) * 5)"
    unfolding fmul_def using assms(2) r by (intro round64_mono) simp_all
  also have "\<dots> = 5629499534213119 / 2 ^ 50" by (simp add: d64)
  also have "\<dots> < 5" by simp
  finally have "fmul r 5 < 5" .
  then have "\<lfloor>fmul r 5\<rfloor> < 5" by (simp add: floor_less_iff)
  then have "nat \<lfloor>fmul r 5\<rfloor> < 5" by linarith
  then show ?thesis by (simp only: n of_nat_numeral)
qed

lemma confidence_caps:
  assumes "30 \<le> n" and "2 \<le> k"
  shows "min (fadd (fadd (lit 0.5) (min (fdiv (real n) 100) (lit 0.3)))
               (min (fmul (real k) (lit 0.1)) (lit 0.2))) 1 = 1"
proof -
  have l1: "lit 0.1 = 3602879701896397 / 2 ^ 55" by (simp add: d64)
  have "round64 (3 / 10) \<le> fdiv (real n) 100"
    unfolding fdiv_def using assms(1) by (intro round64_mono) simp_all
  then have a: "min (fdiv (real n) 100) (lit 0.3) = lit 0.3"
    by (simp add: lit_def)
  have "round64 (2 * (3602879701896397 / 2 ^ 55)) \<le> fmul (real k) (lit 0.1)"
    unfolding fmul_def l1 using assms(2) by (intro round64_mono) simp_all
  moreover have "round64 (2 * (3602879701896397 / 2 ^ 55)) = lit 0.2"
    by (simp add: d64)
  ultimately have b: "min (fmul (real k) (lit 0.1)) (lit 0.2) = lit 0.2"
    by simp
  show ?thesis unfolding a b by (simp add: d64)
qed

lemma confidence_sum_nonneg:
  "0 \<le> fadd (fadd (lit 0.5) (min (fdiv (real n) 100) (lit 0.3)))
          (min (fmul (real k) (lit 0.1)) (lit 0.2))"
proof -
  have l1: "lit 0.1 = 3602879701896397 / 2 ^ 55" by (simp add: d64)
  have a: "0 \<le> min (fdiv (real n) 100) (lit 0.3)"
    by (simp add: fdiv_def lit_def round64_nonneg)
  have b: "0 \<le> min (fmul (real k) (lit 0.1)) (lit 0.2)"
    unfolding l1 by (simp add: fmul_def lit_def round64_nonneg)
  have h: "0 \<le> lit 0.5" by (simp add: lit_def round64_nonneg)
  show ?thesis
    by (rule fadd_nonneg [OF fadd_nonneg [OF h a] b])
qed

subsection \<open>Evaluation\<close>

lemma format_markdown_iff:
  "or_default fmt ''json'' = ''markdown'' \<longleftrightarrow> fmt = Some ''markdown''"
  by (cases fmt) (auto simp: or_default_def)

lemma sublist_tail3: "sublist x (a @ b @ c @ x)"
  using sublist_append_leftI [of x "a @ b @ c"] by simp

lemma show_nat_now: "show_nat 1700000000000 = ''1700000000000''"
  by (simp add: show_nat.simps)

lemma show_code_1: "show_code (Some 1) = ''1''"
  by (simp add: show_code_def show_nat.simps)

lemma show_code_minus_2: "show_code (Some (- 2)) = ''-2''"
  by (simp add: show_code_def show_nat.simps)

lemma console_log_line: "console (log_line w l) = console w @ [l]"
  by (simp add: log_line_def)

lemmas fixture_defs =
  new_TranscriptionService_def new_PythonTranscriptionService_def plain_env_def
  empty_world_def no_options_def no_fields_def truthy_def

lemmas eval_defs =
  transcribeAudio_def py_transcribeAudio_def saveAudioBuffer_def path_join_def fixture_defs
  show_nat_now Let_def spawn_args_def on_close_def cleanupTempFile_def
  parsePythonOutput_def or_default_def structured_result_def structured_text_def
  js_or_def catch_all_def log_line_def transcribeWithOpenAI_def show_code_1
  hej_response_def nonzero_def

lemmas eval2_defs = eval_defs keyed_env_def bare_env_def

subsection \<open>The close handler and the subprocess strategy\<close>

lemma snd_on_close_failed:
  "code \<noteq> Some 0 \<Longrightarrow>
   snd (on_close e w opts p code out err) =
     Rejected (Error (''Python script failed with code '' @ show_code code @ '': '' @ err))"
  by (simp add: on_close_def Let_def)

lemma on_close_parse_failure:
  assumes "json_parse e out = Inl perr" and "opt_outputFormat opts \<noteq> Some ''markdown''"
  shows "on_close e w opts p (Some 0) out err =
     (log_line
        (log_line (cleanupTempFile e w p)
           (''Failed to parse Python output: '' @ inspect e (SyntaxError perr)))
        (''Raw output: '' @ out),
      Rejected (Error (''Invalid output from Python script: '' @ perr)))"
  using assms by (simp add: on_close_def Let_def parsePythonOutput_def format_markdown_iff)

lemma on_close_structured:
  assumes "json_parse e out = Inr v" and "opt_outputFormat opts \<noteq> Some ''markdown''"
  shows "on_close e w opts p (Some 0) out err =
     (cleanupTempFile e w p,
      case fields_of v of Inl x \<Rightarrow> Rejected x | Inr fs \<Rightarrow> Resolved (structured_result v fs))"
  using assms
  by (simp add: on_close_def Let_def parsePythonOutput_def format_markdown_iff split: sum.splits)

lemma on_close_markdown:
  assumes "opt_outputFormat opts = Some ''markdown''"
  shows "on_close e w opts p (Some 0) out err =
     (cleanupTempFile e w p, Resolved (markdown_result (trim out)))"
  using assms by (simp add: on_close_def Let_def parsePythonOutput_def or_default_def)

lemma on_close_scalar:
  assumes "json_parse e out = Inr JsonScalar" and "opt_outputFormat opts \<noteq> Some ''markdown''"
  shows "snd (on_close e w opts p (Some 0) out err) = Resolved (structured_result JsonScalar no_fields)"
  using assms by (simp add: on_close_structured no_fields_def)

lemma on_close_null:
  assumes "json_parse e out = Inr JsonNull" and "opt_outputFormat opts \<noteq> Some ''markdown''"
  shows "snd (on_close e w opts p (Some 0) out err) =
           Rejected (TypeError (''Cannot read properties of null (reading '' @ [CHR 0x27]
                                @ ''markdown'' @ [CHR 0x27] @ '')''))"
  using assms by (simp add: on_close_structured)

text \<open>Every way the handler can end.\<close>

lemma on_close_cases:
  "(code \<noteq> Some 0 \<and> snd (on_close e w opts p code out err) =
       Rejected (Error (''Python script failed with code '' @ show_code code @ '': '' @ err)))
   \<or> (\<exists>perr. snd (on_close e w opts p code out err) =
          Rejected (Error (''Invalid output from Python script: '' @ perr)))
   \<or> (\<exists>x. snd (on_close e w opts p code out err) = Rejected (TypeError x))
   \<or> snd (on_close e w opts p code out err) = Resolved (markdown_result (trim out))
   \<or> (\<exists>v fs. snd (on_close e w opts p code out err) = Resolved (structured_result v fs))"
proof (cases "code = Some 0")
  case False
  then show ?thesis by (simp add: snd_on_close_failed)
next
  case c: True
  show ?thesis
  proof (cases "opt_outputFormat opts = Some ''markdown''")
    case True
    then show ?thesis using c by (simp add: on_close_markdown)
  next
    case m: False
    show ?thesis
    proof (cases "json_parse e out")
      case (Inl perr)
      then show ?thesis using c m by (simp add: on_close_parse_failure)
    next
      case (Inr v)
      then show ?thesis using c m
        by (cases v) (auto simp: on_close_structured)
    qed
  qed
qed

lemma on_close_files:
  "files (fst (on_close e w opts p code out err)) = files (cleanupTempFile e w p)"
  by (auto simp: on_close_def Let_def parsePythonOutput_def log_line_def
           split: sum.splits py_result.splits prod.splits)

lemma py_transcribeAudio_closed:
  assumes "saveAudioBuffer svc e w b = (w1, Inr p)"
      and "spawned e (spawn_args svc opts p) = Closed code out err"
  shows "py_transcribeAudio svc e w b opts = on_close e w1 opts p code out err"
  using assms by (simp add: py_transcribeAudio_def)

lemma markdown_result_tags:
  "res_pipeline (markdown_result t) = Some ''python-local'' \<and> res_mock (markdown_result t) = None
   \<and> res_language (markdown_result t) = ''sv''
   \<and> res_confidence (markdown_result t) = lit 0.9"
  by (simp add: markdown_result_def)

lemma structured_result_tags:
  "res_pipeline (structured_result v fs) = Some ''python-local''
   \<and> res_mock (structured_result v fs) = None
   \<and> res_language (structured_result v fs) = ''sv''
   \<and> res_confidence (structured_result v fs) = lit 0.9"
  by (simp add: structured_result_def)

lemma py_resolved_tags:
  assumes "snd (py_transcribeAudio svc e w b opts) = Resolved r"
  shows "res_pipeline r = Some ''python-local'' \<and> res_mock r = None
         \<and> res_language r = ''sv'' \<and> res_confidence r = lit 0.9"
proof (cases "saveAudioBuffer svc e w b")
  case (Pair w1 s)
  show ?thesis
  proof (cases s)
    case (Inl x)
    with Pair assms show ?thesis by (simp add: py_transcribeAudio_def)
  next
    case (Inr p)
    show ?thesis
    proof (cases "spawned e (spawn_args svc opts p)")
      case (SpawnThrew x)
      with Pair Inr assms show ?thesis by (simp add: py_transcribeAudio_def)
    next
      case (SpawnError msg code first)
      let ?w2 = "cleanupTempFile e w1 p"
      from SpawnError Pair Inr assms
      have r: "snd (on_close e ?w2 opts p (Some code) [] []) = Resolved r"
        by (simp add: py_transcribeAudio_def Let_def split: if_splits)
      from on_close_cases [of "Some code" e ?w2 opts p "[]" "[]"] r
      have "r = markdown_result (trim []) \<or> (\<exists>v fs. r = structured_result v fs)"
        by auto
      then show ?thesis
        by (auto simp: markdown_result_tags structured_result_tags)
    next
      case (Closed code out err)
      with Pair Inr have "py_transcribeAudio svc e w b opts = on_close e w1 opts p code out err"
        by (simp add: py_transcribeAudio_closed)
      with assms have r: "snd (on_close e w1 opts p code out err) = Resolved r" by simp
      from on_close_cases [of code e w1 opts p out err] r
      have "r = markdown_result (trim out) \<or> (\<exists>v fs. r = structured_result v fs)"
        by auto
      then show ?thesis
        by (auto simp: markdown_result_tags structured_result_tags)
    qed
  qed
qed

lemma openai_resolved_tags:
  assumes "snd (transcribeWithOpenAI e w b opts) = Resolved r"
  shows "res_pipeline r = None \<and> res_mock r = None"
  using assms
  by (auto simp: transcribeWithOpenAI_def Let_def split: option.splits sum.splits)

lemma mock_resolved_tags:
  assumes "getMockTranscription e a opts = Resolved (d, r)"
  shows "res_pipeline r = None \<and> res_mock r = Some True"
  using assms
  by (auto simp: getMockTranscription_def Let_def split: option.splits)

subsection \<open>Temporary files\<close>

text \<open>
  The subprocess strategy removes the file it wrote on both of its events, provided the
  unlink succeeds, \<^verbatim>\<open>spawn\<close> did not throw and the name was fresh. The OpenAI
  strategy unlinks only after a successful API call: when the call fails the file stays.
\<close>

lemma cleanupTempFile_removes:
  "unlink_error e p = None \<Longrightarrow> files (cleanupTempFile e w p) = (files w)(p := None)"
  by (auto simp: cleanupTempFile_def)

lemma cleanupTempFile_absent:
  "files w p = None \<Longrightarrow> cleanupTempFile e w p = w"
  by (simp add: cleanupTempFile_def)

lemma py_transcribeAudio_restores_files:
  assumes "\<forall>p. unlink_error e p = None"
      and "\<forall>args x. spawned e args \<noteq> SpawnThrew x"
      and "files w (path_join (tempDir svc)
             (''audio_'' @ show_nat (now e) @ ''_'' @ random_suffix e @ ''.wav'')) = None"
  shows "files (fst (py_transcribeAudio svc e w b opts)) = files w"
proof -
  let ?p = "path_join (tempDir svc)
             (''audio_'' @ show_nat (now e) @ ''_'' @ random_suffix e @ ''.wav'')"
  show ?thesis
  proof (cases "write_error e ?p")
    case (Some msg)
    then show ?thesis
      by (simp add: py_transcribeAudio_def saveAudioBuffer_def Let_def)
  next
    case None
    let ?w1 = "w\<lparr>files := (files w)(?p \<mapsto> b)\<rparr>"
    have save: "saveAudioBuffer svc e w b = (?w1, Inr ?p)"
      using None by (simp add: saveAudioBuffer_def Let_def)
    have clean: "files (cleanupTempFile e ?w1 ?p) = files w"
      using assms(1,3) by (auto simp: cleanupTempFile_removes)
    have "files (cleanupTempFile e ?w1 ?p) ?p = None"
      using clean assms(3) by simp
    then have "cleanupTempFile e (cleanupTempFile e ?w1 ?p) ?p = cleanupTempFile e ?w1 ?p"
      by (rule cleanupTempFile_absent)
    with clean have again: "files (cleanupTempFile e (cleanupTempFile e ?w1 ?p) ?p) = files w"
      by simp
    show ?thesis
    proof (cases "spawned e (spawn_args svc opts ?p)")
      case (SpawnThrew x)
      with assms(2) show ?thesis by simp
    next
      case (SpawnError msg code first)
      with save again show ?thesis
        by (simp add: py_transcribeAudio_def Let_def on_close_files)
    next
      case (Closed code out err)
      with save clean show ?thesis
        by (simp add: py_transcribeAudio_closed on_close_files)
    qed
  qed
qed

lemma transcribeWithOpenAI_keeps_file_on_api_failure:
  assumes "write_error e (''temp/temp_audio_'' @ show_nat (now e) @ ''.wav'') = None"
      and "\<forall>req. api_call e req = Inl err"
  shows "files (fst (transcribeWithOpenAI e w b opts))
           (''temp/temp_audio_'' @ show_nat (now e) @ ''.wav'') = Some b
       \<and> snd (transcribeWithOpenAI e w b opts) = Rejected err"
  using assms by (simp add: transcribeWithOpenAI_def Let_def path_join_def log_line_def)

subsection \<open>The selector\<close>

lemma snd_catch_all:
  "snd (catch_all e x) =
     (case snd x of
        Rejected err \<Rightarrow> Rejected (Error (''Transcription failed: '' @ message err))
      | Resolved r \<Rightarrow> Resolved r
      | Uncaught u \<Rightarrow> Uncaught u)"
  by (cases x) (simp add: catch_all_def split: outcome.splits)

lemma snd_fallback:
  "snd (case transcribeWithOpenAI e w2 b opts of
          (w3, Resolved openaiResult) \<Rightarrow> (log_line w3 l, Resolved openaiResult)
        | (w3, other) \<Rightarrow> (w3, other))
   = snd (transcribeWithOpenAI e w2 b opts)"
  by (cases "transcribeWithOpenAI e w2 b opts") (simp split: outcome.splits)

lemma selector_python_rejected_no_fallback:
  assumes "preferredService svc = ''python''" and "\<not> useOpenAI svc"
      and "snd (py_transcribeAudio (pythonService svc) e w b opts) = Rejected err"
  shows "snd (transcribeAudio svc e w b opts) =
           Rejected (Error (''Transcription failed: '' @ message err))"
proof -
  obtain w1 where py: "py_transcribeAudio (pythonService svc) e w b opts = (w1, Rejected err)"
    using assms(3) by (metis prod.collapse)
  show ?thesis
    unfolding transcribeAudio_def using assms(1,2) py
    by (simp add: catch_all_def Let_def)
qed

lemma selector_python_preferred:
  assumes "preferredService svc = ''python''"
  shows "snd (transcribeAudio svc e w b opts) =
     (case snd (py_transcribeAudio (pythonService svc) e w b opts) of
        Resolved r \<Rightarrow> Resolved r
      | Rejected perr \<Rightarrow>
          if useOpenAI svc then
            (case snd (transcribeWithOpenAI e
                         (log_line (fst (py_transcribeAudio (pythonService svc) e w b opts))
                            (''Python pipeline failed, falling back to OpenAI: '' @ message perr))
                         b opts) of
               Resolved r \<Rightarrow> Resolved r
             | Rejected oerr \<Rightarrow> Rejected (Error (''Transcription failed: '' @ message oerr))
             | Uncaught u \<Rightarrow> Uncaught u)
          else Rejected (Error (''Transcription failed: '' @ message perr))
      | Uncaught u \<Rightarrow> Uncaught u)"
proof (cases "py_transcribeAudio (pythonService svc) e w b opts")
  case (Pair w1 pr)
  show ?thesis
  proof (cases pr)
    case (Resolved r)
    with Pair assms show ?thesis
      by (simp add: transcribeAudio_def snd_catch_all)
  next
    case (Rejected perr)
    with Pair assms show ?thesis
      by (simp add: transcribeAudio_def snd_catch_all snd_fallback Let_def)
  next
    case (Uncaught u)
    with Pair assms show ?thesis
      by (simp add: transcribeAudio_def snd_catch_all)
  qed
qed

lemma selector_python_not_preferred:
  assumes "preferredService svc \<noteq> ''python''"
  shows "snd (transcribeAudio svc e w b opts) =
     (if useOpenAI svc then
        (case snd (transcribeWithOpenAI e w b opts) of
           Resolved r \<Rightarrow> Resolved r
         | Rejected oerr \<Rightarrow> Rejected (Error (''Transcription failed: '' @ message oerr))
         | Uncaught u \<Rightarrow> Uncaught u)
      else map_outcome snd (getMockTranscription e (Some b) opts))"
  using assms by (simp add: transcribeAudio_def snd_catch_all split: outcome.splits)

lemma selector_mock_only_when:
  assumes "snd (transcribeAudio svc e w b opts) = Resolved r" and "res_mock r = Some True"
  shows "preferredService svc \<noteq> ''python'' \<and> \<not> useOpenAI svc"
proof (cases "preferredService svc = ''python''")
  case True
  note sel = selector_python_preferred [OF True, of e w b opts]
  show ?thesis
  proof (cases "snd (py_transcribeAudio (pythonService svc) e w b opts)")
    case (Resolved r')
    with sel assms(1) have "r' = r" by simp
    with Resolved py_resolved_tags [of "pythonService svc" e w b opts r] assms(2)
    show ?thesis by simp
  next
    case (Rejected perr)
    let ?w2 = "log_line (fst (py_transcribeAudio (pythonService svc) e w b opts))
                 (''Python pipeline failed, falling back to OpenAI: '' @ message perr)"
    from sel assms(1) Rejected
    have "snd (transcribeWithOpenAI e ?w2 b opts) = Resolved r"
      by (simp split: if_splits outcome.splits)
    with openai_resolved_tags [of e ?w2 b opts r] assms(2)
    show ?thesis by simp
  next
    case (Uncaught u)
    with sel assms(1) show ?thesis by simp
  qed
next
  case False
  note sel = selector_python_not_preferred [OF False, of e w b opts]
  show ?thesis
  proof (cases "useOpenAI svc")
    case True
    with sel assms(1) have "snd (transcribeWithOpenAI e w b opts) = Resolved r"
      by (simp split: outcome.splits)
    with openai_resolved_tags [of e w b opts r] assms(2)
    show ?thesis by simp
  next
    case u: False
    with False show ?thesis by simp
  qed
qed

section \<open>The claims\<close>

subsection \<open>C1: temporary files after a call\<close>

text \<open>
  Claim C1 says that every temporary file a transcribe call created is gone when the call
  returns, on every exit path. The code does not do this on the OpenAI path: with an API
  key configured, the subprocess exits with code 1, the selector falls back to
  \<open>transcribeWithOpenAI\<close>, which writes
  \<^verbatim>\<open>temp/temp_audio_1700000000000.wav\<close>; the API call fails, the \<^verbatim>\<open>catch\<close>
  throws the error again, and the unlink, a statement of the \<^verbatim>\<open>try\<close> after the call,
  is never run. The file system was empty before the call and holds that file after it.
\<close>

theorem remote_failure_leaves_temp_file:
  "files empty_world = Map.empty
   \<and> files (fst (transcribeAudio (new_TranscriptionService keyed_env) keyed_env
                   empty_world [1, 2, 3] no_options))
       = [''temp/temp_audio_1700000000000.wav'' \<mapsto> [1, 2, 3]]
   \<and> snd (transcribeAudio (new_TranscriptionService keyed_env) keyed_env
             empty_world [1, 2, 3] no_options)
       = Rejected (Error ''Transcription failed: Connection error.'')"
  by (simp add: eval2_defs)

subsection \<open>C2: the selection policy\<close>

text \<open>
  Claim C2, as the code has it. With the subprocess strategy preferred (the constructor
  always prefers it): its result is returned if it resolves; if it rejects and an API key
  is configured, the OpenAI strategy runs and its result is returned, a rejection of it
  being replaced by an error whose message is \<^verbatim>\<open>Transcription failed: \<close> followed by
  the OpenAI error's message; if it rejects and no key is configured, the call is rejected
  with \<^verbatim>\<open>Transcription failed: \<close> followed by the subprocess error's message. With
  another service preferred, the OpenAI strategy alone runs if a key is configured, and
  the mock result is returned if none is. A mock result is returned in that last case
  only: a result marked \<^verbatim>\<open>mock: true\<close> means that the subprocess strategy was not
  preferred and no key was configured.
\<close>

theorem selector_policy:
  "(preferredService svc = ''python''
      \<and> snd (py_transcribeAudio (pythonService svc) e w b opts) = Resolved r \<longrightarrow>
        snd (transcribeAudio svc e w b opts) = Resolved r)
   \<and> (preferredService svc = ''python'' \<and> useOpenAI svc
      \<and> snd (py_transcribeAudio (pythonService svc) e w b opts) = Rejected perr \<longrightarrow>
        snd (transcribeAudio svc e w b opts) =
          (case snd (transcribeWithOpenAI e
                       (log_line (fst (py_transcribeAudio (pythonService svc) e w b opts))
                          (''Python pipeline failed, falling back to OpenAI: '' @ message perr))
                       b opts) of
             Resolved r' \<Rightarrow> Resolved r'
           | Rejected oerr \<Rightarrow> Rejected (Error (''Transcription failed: '' @ message oerr))
           | Uncaught u \<Rightarrow> Uncaught u))
   \<and> (preferredService svc = ''python'' \<and> \<not> useOpenAI svc
      \<and> snd (py_transcribeAudio (pythonService svc) e w b opts) = Rejected perr \<longrightarrow>
        snd (transcribeAudio svc e w b opts) =
          Rejected (Error (''Transcription failed: '' @ message perr)))
   \<and> (preferredService svc \<noteq> ''python'' \<and> useOpenAI svc \<longrightarrow>
        snd (transcribeAudio svc e w b opts) =
          (case snd (transcribeWithOpenAI e w b opts) of
             Resolved r' \<Rightarrow> Resolved r'
           | Rejected oerr \<Rightarrow> Rejected (Error (''Transcription failed: '' @ message oerr))
           | Uncaught u \<Rightarrow> Uncaught u))
   \<and> (preferredService svc \<noteq> ''python'' \<and> \<not> useOpenAI svc \<longrightarrow>
        snd (transcribeAudio svc e w b opts) =
          map_outcome snd (getMockTranscription e (Some b) opts))
   \<and> (snd (transcribeAudio svc e w b opts) = Resolved r \<and> res_mock r = Some True \<longrightarrow>
        preferredService svc \<noteq> ''python'' \<and> \<not> useOpenAI svc)
   \<and> preferredService (new_TranscriptionService e0) = ''python''"
proof -
  have a: "snd (transcribeAudio svc e w b opts) = Resolved r"
    if "preferredService svc = ''python''"
       "snd (py_transcribeAudio (pythonService svc) e w b opts) = Resolved r"
    using that by (simp add: selector_python_preferred)
  have b: "snd (transcribeAudio svc e w b opts) =
          (case snd (transcribeWithOpenAI e
                       (log_line (fst (py_transcribeAudio (pythonService svc) e w b opts))
                          (''Python pipeline failed, falling back to OpenAI: '' @ message perr))
                       b opts) of
             Resolved r' \<Rightarrow> Resolved r'
           | Rejected oerr \<Rightarrow> Rejected (Error (''Transcription failed: '' @ message oerr))
           | Uncaught u \<Rightarrow> Uncaught u)"
    if "preferredService svc = ''python''" "useOpenAI svc"
       "snd (py_transcribeAudio (pythonService svc) e w b opts) = Rejected perr"
    using that by (simp add: selector_python_preferred)
  have c: "snd (transcribeAudio svc e w b opts) =
          Rejected (Error (''Transcription failed: '' @ message perr))"
    if "preferredService svc = ''python''" "\<not> useOpenAI svc"
       "snd (py_transcribeAudio (pythonService svc) e w b opts) = Rejected perr"
    using that by (simp add: selector_python_preferred)
  have d: "snd (transcribeAudio svc e w b opts) =
          (case snd (transcribeWithOpenAI e w b opts) of
             Resolved r' \<Rightarrow> Resolved r'
           | Rejected oerr \<Rightarrow> Rejected (Error (''Transcription failed: '' @ message oerr))
           | Uncaught u \<Rightarrow> Uncaught u)"
    if "preferredService svc \<noteq> ''python''" "useOpenAI svc"
    using that by (simp add: selector_python_not_preferred)
  have f: "snd (transcribeAudio svc e w b opts) =
          map_outcome snd (getMockTranscription e (Some b) opts)"
    if "preferredService svc \<noteq> ''python''" "\<not> useOpenAI svc"
    using that by (simp add: selector_python_not_preferred)
  have g: "preferredService svc \<noteq> ''python'' \<and> \<not> useOpenAI svc"
    if "snd (transcribeAudio svc e w b opts) = Resolved r" "res_mock r = Some True"
    using that by (rule selector_mock_only_when)
  have h: "preferredService (new_TranscriptionService e0) = ''python''"
    by (simp add: new_TranscriptionService_def)
  from a b c d f g h show ?thesis by blast
qed

theorem selector_policy_witness:
  "snd (transcribeAudio (new_TranscriptionService plain_env) plain_env empty_world [] no_options)
     = Resolved (structured_result (JsonMapping no_fields) no_fields)
   \<and> map_outcome res_text
       (snd (transcribeAudio (new_TranscriptionService keyed_env)
               (keyed_env\<lparr>api_call := \<lambda>req. Inr hej_response\<rparr>) empty_world [] no_options))
     = Resolved ''hej''
   \<and> snd (transcribeAudio (new_TranscriptionService plain_env)
            (plain_env\<lparr>spawned := \<lambda>args. Closed (Some 1) [] ''boom''\<rparr>)
            empty_world [] no_options)
     = Rejected (Error ''Transcription failed: Python script failed with code 1: boom'')
   \<and> map_outcome res_mock
       (snd (transcribeAudio ((new_TranscriptionService plain_env)\<lparr>preferredService := ''openai''\<rparr>)
               plain_env empty_world [] no_options))
     = Resolved (Some True)
   \<and> map_outcome res_text
       (snd (transcribeAudio ((new_TranscriptionService keyed_env)\<lparr>preferredService := ''openai''\<rparr>)
               (keyed_env\<lparr>api_call := \<lambda>req. Inr hej_response\<rparr>) empty_world [] no_options))
     = Resolved ''hej''"
proof -
  let ?S = "new_TranscriptionService plain_env"
  let ?K = "new_TranscriptionService keyed_env"
  let ?ke = "keyed_env\<lparr>api_call := \<lambda>req. Inr hej_response\<rparr>"
  let ?pe = "plain_env\<lparr>spawned := \<lambda>args. Closed (Some 1) [] ''boom''\<rparr>"
  let ?r = "structured_result (JsonMapping no_fields) no_fields"
  have p1: "preferredService ?S = ''python''
            \<and> snd (py_transcribeAudio (pythonService ?S) plain_env empty_world [] no_options)
                = Resolved ?r"
    by (simp add: eval2_defs)
  have c1: "snd (transcribeAudio ?S plain_env empty_world [] no_options) = Resolved ?r"
    using selector_policy [where svc = ?S and e = plain_env and w = empty_world and b = "[]"
                             and opts = no_options and r = ?r] p1
    by blast
  have p2: "preferredService ?K = ''python'' \<and> useOpenAI ?K
            \<and> snd (py_transcribeAudio (pythonService ?K) ?ke empty_world [] no_options)
                = Rejected (Error ''Python script failed with code 1: boom'')"
    by (simp add: eval2_defs)
  have c2: "map_outcome res_text (snd (transcribeAudio ?K ?ke empty_world [] no_options))
              = Resolved ''hej''"
    using selector_policy [where svc = ?K and e = ?ke and w = empty_world and b = "[]"
                             and opts = no_options
                             and perr = "Error ''Python script failed with code 1: boom''"] p2
    by (simp add: eval2_defs)
  have p3: "preferredService ?S = ''python'' \<and> \<not> useOpenAI ?S
            \<and> snd (py_transcribeAudio (pythonService ?S) ?pe empty_world [] no_options)
                = Rejected (Error ''Python script failed with code 1: boom'')"
    by (simp add: eval2_defs)
  have c3: "snd (transcribeAudio ?S ?pe empty_world [] no_options)
              = Rejected (Error ''Transcription failed: Python script failed with code 1: boom'')"
    using selector_policy [where svc = ?S and e = ?pe and w = empty_world and b = "[]"
                             and opts = no_options
                             and perr = "Error ''Python script failed with code 1: boom''"] p3
    by simp
  let ?O = "?S\<lparr>preferredService := ''openai''\<rparr>"
  have p4: "preferredService ?O \<noteq> ''python'' \<and> \<not> useOpenAI ?O"
    by (simp add: fixture_defs)
  have c4: "map_outcome res_mock (snd (transcribeAudio ?O plain_env empty_world [] no_options))
              = Resolved (Some True)"
    using selector_policy [where svc = ?O and e = plain_env and w = empty_world and b = "[]"
                             and opts = no_options] p4
    by (simp add: getMockTranscription_def Let_def)
  let ?Q = "?K\<lparr>preferredService := ''openai''\<rparr>"
  have p5: "preferredService ?Q \<noteq> ''python'' \<and> useOpenAI ?Q"
    by (simp add: eval2_defs)
  have c5: "map_outcome res_text (snd (transcribeAudio ?Q ?ke empty_world [] no_options))
              = Resolved ''hej''"
    using selector_policy [where svc = ?Q and e = ?ke and w = empty_world and b = "[]"
                             and opts = no_options] p5
    by (simp add: eval2_defs)
  from c1 c2 c3 c4 c5 show ?thesis by blast
qed

text \<open>
  The claim as stated fails: with nothing configured (no key, an interpreter that cannot
  be started) the selector made by the constructor rejects instead of returning a mock
  result, whichever of the two handlers of the failed start rejects first.
\<close>

theorem no_backend_is_an_error_counterexample:
  "\<not> isConfigured (new_TranscriptionService bare_env) bare_env
   \<and> snd (transcribeAudio (new_TranscriptionService bare_env) bare_env empty_world [] no_options)
     = Rejected (Error
         ''Transcription failed: Failed to start Python process: spawn python3 ENOENT'')
   \<and> snd (transcribeAudio (new_TranscriptionService bare_env)
            (bare_env\<lparr>spawned := \<lambda>args. SpawnError ''spawn python3 ENOENT'' (- 2) False\<rparr>)
            empty_world [] no_options)
     = Rejected (Error ''Transcription failed: Python script failed with code -2: '')"
  by (simp add: eval2_defs isConfigured_def isAvailable_def show_code_minus_2)

subsection \<open>C3: the pipeline tag\<close>

text \<open>
  Claim C3, as the code has it. Every result the selector resolves with comes from one of
  the three strategies and is marked accordingly: a result of the subprocess strategy has
  \<^verbatim>\<open>pipeline: 'python-local'\<close> and no \<^verbatim>\<open>mock\<close> key; a result of the OpenAI
  strategy has neither key; a mock result has \<^verbatim>\<open>mock: true\<close> and no
  \<^verbatim>\<open>pipeline\<close> key.
\<close>

theorem selector_result_marks:
  assumes "snd (transcribeAudio svc e w b opts) = Resolved r"
  shows "(snd (py_transcribeAudio (pythonService svc) e w b opts) = Resolved r
            \<and> res_pipeline r = Some ''python-local'' \<and> res_mock r = None)
       \<or> ((\<exists>w'. snd (transcribeWithOpenAI e w' b opts) = Resolved r)
            \<and> res_pipeline r = None \<and> res_mock r = None)
       \<or> ((\<exists>d. getMockTranscription e (Some b) opts = Resolved (d, r))
            \<and> res_pipeline r = None \<and> res_mock r = Some True)"
proof (cases "preferredService svc = ''python''")
  case True
  note sel = selector_python_preferred [OF True, of e w b opts]
  show ?thesis
  proof (cases "snd (py_transcribeAudio (pythonService svc) e w b opts)")
    case (Resolved r')
    with sel assms have "r' = r" by simp
    with Resolved py_resolved_tags [of "pythonService svc" e w b opts r]
    show ?thesis by simp
  next
    case (Rejected perr)
    let ?w2 = "log_line (fst (py_transcribeAudio (pythonService svc) e w b opts))
                 (''Python pipeline failed, falling back to OpenAI: '' @ message perr)"
    from sel assms Rejected
    have "snd (transcribeWithOpenAI e ?w2 b opts) = Resolved r"
      by (simp split: if_splits outcome.splits)
    with openai_resolved_tags [of e ?w2 b opts r]
    show ?thesis by blast
  next
    case (Uncaught u)
    with sel assms show ?thesis by simp
  qed
next
  case False
  note sel = selector_python_not_preferred [OF False, of e w b opts]
  show ?thesis
  proof (cases "useOpenAI svc")
    case True
    with sel assms have "snd (transcribeWithOpenAI e w b opts) = Resolved r"
      by (simp split: outcome.splits)
    with openai_resolved_tags [of e w b opts r]
    show ?thesis by blast
  next
    case False
    with sel assms have "map_outcome snd (getMockTranscription e (Some b) opts) = Resolved r"
      by simp
    then obtain d where "getMockTranscription e (Some b) opts = Resolved (d, r)"
      by (cases "getMockTranscription e (Some b) opts") auto
    with mock_resolved_tags [of e "Some b" opts d r]
    show ?thesis by blast
  qed
qed

theorem selector_result_marks_witness:
  "snd (transcribeAudio (new_TranscriptionService plain_env) plain_env empty_world [] no_options)
     = Resolved (structured_result (JsonMapping no_fields) no_fields)
   \<and> res_pipeline (structured_result (JsonMapping no_fields) no_fields) = Some ''python-local''
   \<and> res_mock (structured_result (JsonMapping no_fields) no_fields) = None"
proof -
  let ?r = "structured_result (JsonMapping no_fields) no_fields"
  have ev: "snd (transcribeAudio (new_TranscriptionService plain_env) plain_env empty_world []
                   no_options) = Resolved ?r"
    by (simp add: eval_defs)
  have "res_pipeline ?r \<noteq> None"
    by (simp add: structured_result_def)
  with selector_result_marks [OF ev] ev show ?thesis by blast
qed

text \<open>
  The claim as stated fails: when the subprocess fails and the OpenAI strategy answers, the
  result the selector returns has no pipeline tag.
\<close>

theorem remote_result_untagged_counterexample:
  "map_outcome res_pipeline
     (snd (transcribeAudio (new_TranscriptionService keyed_env)
             (keyed_env\<lparr>api_call := \<lambda>req. Inr hej_response\<rparr>) empty_world [] no_options))
   = Resolved None"
  by (simp add: eval2_defs)

subsection \<open>C4: the service status\<close>

text \<open>
  Claim C4, as the code has it. \<open>getServiceStatus\<close> returns an object with exactly the
  keys \<^verbatim>\<open>preferredService\<close>, \<^verbatim>\<open>pythonService\<close>, \<^verbatim>\<open>openaiConfigured\<close> and
  \<^verbatim>\<open>overallConfigured\<close>: the second is the status object of the subprocess service,
  whose \<^verbatim>\<open>available\<close> is the result of the capability probe; the last is true
  exactly when the probe succeeded or a key is configured. There is no
  \<^verbatim>\<open>mockModeActive\<close> key.
\<close>

theorem service_status_fields:
  "keys (getServiceStatus svc e) =
     [''preferredService'', ''pythonService'', ''openaiConfigured'', ''overallConfigured'']
   \<and> get (getServiceStatus svc e) ''preferredService'' = Some (JStr (preferredService svc))
   \<and> get (getServiceStatus svc e) ''pythonService'' = Some (py_getStatus (pythonService svc) e)
   \<and> get (py_getStatus (pythonService svc) e) ''available'' = Some (JBool (isAvailable e))
   \<and> get (getServiceStatus svc e) ''openaiConfigured'' =
       Some (JBool (useOpenAI svc \<and> truthy (env_OPENAI_API_KEY e)))
   \<and> get (getServiceStatus svc e) ''overallConfigured'' =
       Some (JBool (isAvailable e \<or> (useOpenAI svc \<and> truthy (env_OPENAI_API_KEY e))))
   \<and> get (getServiceStatus svc e) ''mockModeActive'' = None"
  by (simp add: getServiceStatus_def py_getStatus_def Let_def)

text \<open>
  The claim as stated fails: with nothing configured the status has the four keys above,
  no \<^verbatim>\<open>mockModeActive\<close>, and reports \<^verbatim>\<open>overallConfigured: false\<close>.
\<close>

theorem service_status_counterexample:
  "keys (getServiceStatus (new_TranscriptionService bare_env) bare_env) =
     [''preferredService'', ''pythonService'', ''openaiConfigured'', ''overallConfigured'']
   \<and> get (getServiceStatus (new_TranscriptionService bare_env) bare_env) ''mockModeActive'' = None
   \<and> get (getServiceStatus (new_TranscriptionService bare_env) bare_env) ''overallConfigured''
       = Some (JBool False)"
  by (simp add: getServiceStatus_def py_getStatus_def Let_def isAvailable_def eval2_defs)

subsection \<open>C5: the confidence heuristic of the remote strategy\<close>

text \<open>
  Claim C5. For every text, \<open>calculateConfidence\<close> is 0 on the empty text and otherwise
  the minimum of 1 and the sum, in double arithmetic, of the base 0.5, the length term (the
  length over 100, at most 0.3) and the punctuation term (0.1 times the number of
  characters of the text that are one of \<^verbatim>\<open>. , ! ? ;\<close>, at most 0.2). The value lies
  between 0 and 1, and a text of 200 characters with 3 marks gets exactly 1.
\<close>

theorem calculateConfidence_formula:
  "calculateConfidence t =
     (if t = [] then 0
      else min (fadd (fadd (lit 0.5) (min (fdiv (real (length t)) 100) (lit 0.3)))
                  (min (fmul (real (length (filter
                          (\<lambda>c. c = CHR ''.'' \<or> c = CHR '','' \<or> c = CHR ''!''
                                \<or> c = CHR ''?'' \<or> c = CHR '';'') t)))
                          (lit 0.1)) (lit 0.2))) 1)
   \<and> 0 \<le> calculateConfidence t \<and> calculateConfidence t \<le> 1
   \<and> (length t = 200
        \<and> length (filter (\<lambda>c. c = CHR ''.'' \<or> c = CHR '','' \<or> c = CHR ''!''
                                \<or> c = CHR ''?'' \<or> c = CHR '';'') t) = 3
        \<longrightarrow> calculateConfidence t = 1)"
proof -
  let ?k = "length (filter (\<lambda>c. c = CHR ''.'' \<or> c = CHR '','' \<or> c = CHR ''!''
                                \<or> c = CHR ''?'' \<or> c = CHR '';'') t)"
  let ?s = "fadd (fadd (lit 0.5) (min (fdiv (real (length t)) 100) (lit 0.3)))
              (min (fmul (real ?k) (lit 0.1)) (lit 0.2))"
  have marks: "(\<lambda>c. c \<in> set ''.,!?;'')
                 = (\<lambda>c. c = CHR ''.'' \<or> c = CHR '','' \<or> c = CHR ''!''
                                \<or> c = CHR ''?'' \<or> c = CHR '';'')"
    by auto
  have eq: "calculateConfidence t = (if t = [] then 0 else min ?s 1)"
    by (simp add: calculateConfidence_def Let_def marks)
  have lo: "0 \<le> calculateConfidence t"
    unfolding eq using confidence_sum_nonneg [of "length t" ?k] by simp
  have hi: "calculateConfidence t \<le> 1"
    unfolding eq by simp
  have ex: "calculateConfidence t = 1" if "length t = 200" "?k = 3"
  proof -
    have "t \<noteq> []" using that(1) by auto
    moreover have "min ?s 1 = 1"
      by (rule confidence_caps) (use that in simp_all)
    ultimately show ?thesis by (simp add: eq)
  qed
  from eq lo hi ex show ?thesis by blast
qed

text \<open>
  At a text of 200 characters with three marks; at the empty text; at each mark alone
  (0.61) and at a colon, which is no mark (0.51); and at 19 letters and a full stop, where
  the doubles give 0.7999999999999999 and not 0.8.
\<close>

theorem calculateConfidence_formula_witness:
  "length (replicate 197 CHR ''a'' @ ''?;.'') = 200
   \<and> length (filter (\<lambda>c. c = CHR ''.'' \<or> c = CHR '','' \<or> c = CHR ''!''
                          \<or> c = CHR ''?'' \<or> c = CHR '';'')
               (replicate 197 CHR ''a'' @ ''?;.'')) = 3
   \<and> calculateConfidence (replicate 197 CHR ''a'' @ ''?;.'') = 1
   \<and> calculateConfidence [] = 0
   \<and> calculateConfidence ''.'' = 5494391545392005 / 2 ^ 53
   \<and> calculateConfidence '','' = 5494391545392005 / 2 ^ 53
   \<and> calculateConfidence ''!'' = 5494391545392005 / 2 ^ 53
   \<and> calculateConfidence ''?'' = 5494391545392005 / 2 ^ 53
   \<and> calculateConfidence '';'' = 5494391545392005 / 2 ^ 53
   \<and> calculateConfidence '':'' = 2296835809958953 / 2 ^ 52
   \<and> calculateConfidence (replicate 19 CHR ''a'' @ ''.'') = 7205759403792793 / 2 ^ 53"
proof -
  let ?t = "replicate 197 CHR ''a'' @ ''?;.''"
  have l: "length ?t = 200" by simp
  have p: "length (filter (\<lambda>c. c = CHR ''.'' \<or> c = CHR '','' \<or> c = CHR ''!''
                          \<or> c = CHR ''?'' \<or> c = CHR '';'') ?t) = 3"
    by simp
  from l p calculateConfidence_formula [of ?t]
  have c: "calculateConfidence ?t = 1" by blast
  have z: "calculateConfidence [] = 0"
    using calculateConfidence_formula [of "[]"] by simp
  have m1: "calculateConfidence ''.'' = 5494391545392005 / 2 ^ 53"
    using calculateConfidence_formula [of "''.''"] by (simp add: d64)
  have m2: "calculateConfidence '','' = 5494391545392005 / 2 ^ 53"
    using calculateConfidence_formula [of "'',''"] by (simp add: d64)
  have m3: "calculateConfidence ''!'' = 5494391545392005 / 2 ^ 53"
    using calculateConfidence_formula [of "''!''"] by (simp add: d64)
  have m4: "calculateConfidence ''?'' = 5494391545392005 / 2 ^ 53"
    using calculateConfidence_formula [of "''?''"] by (simp add: d64)
  have m5: "calculateConfidence '';'' = 5494391545392005 / 2 ^ 53"
    using calculateConfidence_formula [of "'';''"] by (simp add: d64)
  have n: "calculateConfidence '':'' = 2296835809958953 / 2 ^ 52"
    using calculateConfidence_formula [of "'':''"] by (simp add: d64)
  have v: "calculateConfidence (replicate 19 CHR ''a'' @ ''.'') = 7205759403792793 / 2 ^ 53"
    using calculateConfidence_formula [of "replicate 19 CHR ''a'' @ ''.''"] by (simp add: d64)
  from l p c z m1 m2 m3 m4 m5 n v show ?thesis by blast
qed

subsection \<open>C6: a non-zero exit code\<close>

text \<open>
  Claim C6. When the child process closes with a code other than 0, the subprocess
  strategy rejects with an error whose message holds the code and the whole standard
  error text; and when the selector prefers that strategy and has no API key, the error it
  rejects with holds the same message after \<^verbatim>\<open>Transcription failed: \<close>, so the
  standard error text is part of it.
\<close>

theorem nonzero_exit_carries_code_and_stderr:
  assumes "saveAudioBuffer (pythonService svc) e w b = (w1, Inr p)"
      and "spawned e (spawn_args (pythonService svc) opts p) = Closed code out err"
      and "code \<noteq> Some 0"
  shows "snd (py_transcribeAudio (pythonService svc) e w b opts) =
           Rejected (Error (''Python script failed with code '' @ show_code code @ '': '' @ err))
       \<and> (preferredService svc = ''python'' \<and> \<not> useOpenAI svc \<longrightarrow>
            snd (transcribeAudio svc e w b opts) =
              Rejected (Error (''Transcription failed: Python script failed with code ''
                               @ show_code code @ '': '' @ err))
            \<and> sublist err (''Transcription failed: Python script failed with code ''
                            @ show_code code @ '': '' @ err))"
proof -
  let ?m = "''Python script failed with code '' @ show_code code @ '': '' @ err"
  have py: "snd (py_transcribeAudio (pythonService svc) e w b opts) = Rejected (Error ?m)"
    using assms by (simp add: py_transcribeAudio_closed snd_on_close_failed)
  have sel: "snd (transcribeAudio svc e w b opts) =
               Rejected (Error (''Transcription failed: '' @ ?m))"
    if "preferredService svc = ''python''" "\<not> useOpenAI svc"
    using selector_python_rejected_no_fallback [OF that py] by simp
  have sub: "sublist err (''Transcription failed: Python script failed with code ''
                            @ show_code code @ '': '' @ err)"
    by (rule sublist_tail3)
  from py sel sub show ?thesis by simp
qed

theorem nonzero_exit_carries_code_and_stderr_witness:
  "snd (py_transcribeAudio (pythonService (new_TranscriptionService plain_env))
          (plain_env\<lparr>spawned := \<lambda>args. Closed (Some 1) [] ''boom''\<rparr>)
          empty_world [] no_options)
     = Rejected (Error ''Python script failed with code 1: boom'')
   \<and> snd (transcribeAudio (new_TranscriptionService plain_env)
          (plain_env\<lparr>spawned := \<lambda>args. Closed (Some 1) [] ''boom''\<rparr>)
          empty_world [] no_options)
     = Rejected (Error ''Transcription failed: Python script failed with code 1: boom'')
   \<and> sublist ''boom'' ''Transcription failed: Python script failed with code 1: boom''"
proof -
  let ?e = "plain_env\<lparr>spawned := \<lambda>args. Closed (Some 1) [] ''boom''\<rparr>"
  let ?svc = "new_TranscriptionService plain_env"
  let ?p = "''temp_audio_transa/audio_1700000000000_k3j9x0q1z.wav''"
  have h1: "saveAudioBuffer (pythonService ?svc) ?e empty_world [] =
              (empty_world\<lparr>files := (files empty_world)(?p \<mapsto> [])\<rparr>, Inr ?p)"
    by (simp add: saveAudioBuffer_def path_join_def fixture_defs show_nat_now Let_def)
  have h2: "spawned ?e (spawn_args (pythonService ?svc) no_options ?p) = Closed (Some 1) [] ''boom''"
    by (simp add: plain_env_def)
  have h3: "Some (1::int) \<noteq> Some 0" by simp
  have h4: "preferredService ?svc = ''python'' \<and> \<not> useOpenAI ?svc"
    by (simp add: fixture_defs)
  from nonzero_exit_carries_code_and_stderr [OF h1 h2 h3] h4
  show ?thesis by (simp add: show_code_1)
qed

subsection \<open>C7: output that is not the structured mapping\<close>

text \<open>
  Claim C7, as the code has it. The process exits with code 0 and the format is not
  markdown. When \<^verbatim>\<open>JSON.parse\<close> throws on the standard output, the subprocess
  strategy rejects with an \<^verbatim>\<open>Error\<close> whose message is
  \<^verbatim>\<open>Invalid output from Python script: \<close> followed by the parser's message and
  nothing else; the console gets two more lines, the parser's error as the engine prints
  it and the raw output, all of it; no close event with another code gives the same
  rejection; and the call does not resolve. Output that parses is not checked further: a
  number, string, boolean or array resolves with an empty text, no segments, no speakers,
  duration 0 and 0 words, and \<^verbatim>\<open>null\<close> rejects with the engine's
  \<^verbatim>\<open>TypeError\<close>.
\<close>

theorem unparsable_output_is_rejected:
  assumes "saveAudioBuffer svc e w b = (w1, Inr p)"
      and "spawned e (spawn_args svc opts p) = Closed (Some 0) out err"
      and "opt_outputFormat opts \<noteq> Some ''markdown''"
  shows "(json_parse e out = Inl perr \<longrightarrow>
            snd (py_transcribeAudio svc e w b opts) =
              Rejected (Error (''Invalid output from Python script: '' @ perr))
          \<and> console (fst (py_transcribeAudio svc e w b opts)) =
              console (cleanupTempFile e w1 p)
              @ [''Failed to parse Python output: '' @ inspect e (SyntaxError perr),
                 ''Raw output: '' @ out]
          \<and> (\<forall>w' p' code' out' err'. code' \<noteq> Some 0 \<longrightarrow>
                 snd (on_close e w' opts p' code' out' err')
                   \<noteq> snd (py_transcribeAudio svc e w b opts)))
       \<and> (json_parse e out = Inr JsonScalar \<longrightarrow>
            snd (py_transcribeAudio svc e w b opts) =
              Resolved (structured_result JsonScalar no_fields)
          \<and> res_text (structured_result JsonScalar no_fields) = []
          \<and> res_segments (structured_result JsonScalar no_fields) = Some []
          \<and> res_speakers (structured_result JsonScalar no_fields) = Some []
          \<and> res_duration (structured_result JsonScalar no_fields) = Some 0
          \<and> res_totalWords (structured_result JsonScalar no_fields) = Some 0)
       \<and> (json_parse e out = Inr JsonNull \<longrightarrow>
            snd (py_transcribeAudio svc e w b opts) =
              Rejected (TypeError (''Cannot read properties of null (reading '' @ [CHR 0x27]
                                   @ ''markdown'' @ [CHR 0x27] @ '')'')))"
proof -
  have run: "py_transcribeAudio svc e w b opts = on_close e w1 opts p (Some 0) out err"
    using assms(1,2) by (rule py_transcribeAudio_closed)
  have fail: "snd (py_transcribeAudio svc e w b opts) =
              Rejected (Error (''Invalid output from Python script: '' @ perr))
          \<and> console (fst (py_transcribeAudio svc e w b opts)) =
              console (cleanupTempFile e w1 p)
              @ [''Failed to parse Python output: '' @ inspect e (SyntaxError perr),
                 ''Raw output: '' @ out]
          \<and> (\<forall>w' p' code' out' err'. code' \<noteq> Some 0 \<longrightarrow>
                 snd (on_close e w' opts p' code' out' err')
                   \<noteq> snd (py_transcribeAudio svc e w b opts))"
    if "json_parse e out = Inl perr"
    unfolding run
    by (simp add: on_close_parse_failure [OF that assms(3)] console_log_line snd_on_close_failed)
  have scalar: "snd (py_transcribeAudio svc e w b opts) =
              Resolved (structured_result JsonScalar no_fields)
          \<and> res_text (structured_result JsonScalar no_fields) = []
          \<and> res_segments (structured_result JsonScalar no_fields) = Some []
          \<and> res_speakers (structured_result JsonScalar no_fields) = Some []
          \<and> res_duration (structured_result JsonScalar no_fields) = Some 0
          \<and> res_totalWords (structured_result JsonScalar no_fields) = Some 0"
    if "json_parse e out = Inr JsonScalar"
    unfolding run
    by (simp add: on_close_scalar [OF that assms(3)] structured_result_def structured_text_def
          js_or_def or_default_def no_fields_def)
  have null: "snd (py_transcribeAudio svc e w b opts) =
              Rejected (TypeError (''Cannot read properties of null (reading '' @ [CHR 0x27]
                                   @ ''markdown'' @ [CHR 0x27] @ '')''))"
    if "json_parse e out = Inr JsonNull"
    unfolding run by (rule on_close_null [OF that assms(3)])
  from fail scalar null show ?thesis by blast
qed

theorem unparsable_output_is_rejected_witness:
  "py_transcribeAudio (new_PythonTranscriptionService plain_env)
      (plain_env\<lparr>spawned := \<lambda>args. Closed (Some 0) ''garbage'' []\<rparr>) empty_world [] no_options
   = (\<lparr>files = Map.empty,
        console = [''Failed to parse Python output: SyntaxError: Unexpected token'',
                   ''Raw output: garbage'']\<rparr>,
      Rejected (Error ''Invalid output from Python script: Unexpected token''))"
proof -
  let ?e = "plain_env\<lparr>spawned := \<lambda>args. Closed (Some 0) ''garbage'' []\<rparr>"
  let ?svc = "new_PythonTranscriptionService plain_env"
  let ?p = "''temp_audio_transa/audio_1700000000000_k3j9x0q1z.wav''"
  let ?w1 = "empty_world\<lparr>files := (files empty_world)(?p \<mapsto> [])\<rparr>"
  have h1: "saveAudioBuffer ?svc ?e empty_world [] = (?w1, Inr ?p)"
    by (simp add: saveAudioBuffer_def path_join_def fixture_defs show_nat_now Let_def)
  have h2: "spawned ?e (spawn_args ?svc no_options ?p) = Closed (Some 0) ''garbage'' []"
    by (simp add: plain_env_def)
  have h3: "opt_outputFormat no_options \<noteq> Some ''markdown''"
    by (simp add: no_options_def)
  have h4: "json_parse ?e ''garbage'' = Inl ''Unexpected token''"
    by (simp add: plain_env_def)
  have c: "cleanupTempFile ?e ?w1 ?p = empty_world"
    by (simp add: cleanupTempFile_def empty_world_def plain_env_def)
  from unparsable_output_is_rejected [OF h1 h2 h3, of "''Unexpected token''"] h4
  have r: "snd (py_transcribeAudio ?svc ?e empty_world [] no_options) =
             Rejected (Error ''Invalid output from Python script: Unexpected token'')"
    and k: "console (fst (py_transcribeAudio ?svc ?e empty_world [] no_options)) =
              console (cleanupTempFile ?e ?w1 ?p)
              @ [''Failed to parse Python output: '' @ inspect ?e (SyntaxError ''Unexpected token''),
                 ''Raw output: garbage'']"
    by simp_all
  have f: "files (fst (py_transcribeAudio ?svc ?e empty_world [] no_options)) =
             files (cleanupTempFile ?e ?w1 ?p)"
    by (simp only: py_transcribeAudio_closed [OF h1 h2] on_close_files)
  have "fst (py_transcribeAudio ?svc ?e empty_world [] no_options) =
     \<lparr>files = Map.empty,
      console = [''Failed to parse Python output: SyntaxError: Unexpected token'',
                 ''Raw output: garbage'']\<rparr>"
    using k f unfolding c by (simp add: empty_world_def plain_env_def)
  with r show ?thesis by (simp add: prod_eq_iff)
qed

text \<open>
  The claim as stated fails: the standard output \<^verbatim>\<open>5\<close> is not the structured
  mapping, and the call resolves with empty fields.
\<close>

theorem scalar_output_resolves_counterexample:
  "json_parse (plain_env\<lparr>spawned := \<lambda>args. Closed (Some 0) ''5'' [],
                         json_parse := \<lambda>s. if s = ''5'' then Inr JsonScalar
                                           else Inl ''Unexpected token''\<rparr>) ''5''
     = Inr JsonScalar
   \<and> snd (py_transcribeAudio (new_PythonTranscriptionService plain_env)
        (plain_env\<lparr>spawned := \<lambda>args. Closed (Some 0) ''5'' [],
                   json_parse := \<lambda>s. if s = ''5'' then Inr JsonScalar
                                     else Inl ''Unexpected token''\<rparr>)
        empty_world [] no_options)
     = Resolved (structured_result JsonScalar no_fields)
   \<and> res_text (structured_result JsonScalar no_fields) = []
   \<and> res_segments (structured_result JsonScalar no_fields) = Some []
   \<and> res_duration (structured_result JsonScalar no_fields) = Some 0"
  by (simp add: py_transcribeAudio_def saveAudioBuffer_def path_join_def fixture_defs
        show_nat_now Let_def spawn_args_def on_close_def cleanupTempFile_def
        parsePythonOutput_def or_default_def structured_result_def structured_text_def
        js_or_def)

subsection \<open>C8: text and confidence of a structured result\<close>

text \<open>
  Claim C8, as the code has it. For a parsed mapping, the text of the result is the
  \<^verbatim>\<open>markdown\<close> field if it is present and not the empty string, else the
  \<^verbatim>\<open>word\<close> fields of the segments joined by single spaces in array order (a missing
  word counting as the empty string), else the empty string; the confidence is the
  number written \<^verbatim>\<open>0.9\<close>.
\<close>

theorem structured_result_text_and_confidence:
  assumes "saveAudioBuffer svc e w b = (w1, Inr p)"
      and "spawned e (spawn_args svc opts p) = Closed (Some 0) out err"
      and "opt_outputFormat opts \<noteq> Some ''markdown''"
      and "json_parse e out = Inr (JsonMapping fs)"
  shows "snd (py_transcribeAudio svc e w b opts) = Resolved (structured_result (JsonMapping fs) fs)
       \<and> res_confidence (structured_result (JsonMapping fs) fs) = lit 0.9
       \<and> res_text (structured_result (JsonMapping fs) fs) =
           (case out_markdown fs of
              Some m \<Rightarrow>
                if m \<noteq> [] then m
                else (case out_segments fs of
                        Some segs \<Rightarrow> join '' '' (map word segs) | None \<Rightarrow> [])
            | None \<Rightarrow>
                (case out_segments fs of
                   Some segs \<Rightarrow> join '' '' (map word segs) | None \<Rightarrow> []))"
proof -
  have run: "snd (py_transcribeAudio svc e w b opts) =
               Resolved (structured_result (JsonMapping fs) fs)"
    using assms by (simp add: py_transcribeAudio_closed on_close_structured)
  have conf: "res_confidence (structured_result (JsonMapping fs) fs) = lit 0.9"
    by (simp add: structured_result_def)
  have body: "res_text (structured_result (JsonMapping fs) fs) =
           (case out_markdown fs of
              Some m \<Rightarrow>
                if m \<noteq> [] then m
                else (case out_segments fs of
                        Some segs \<Rightarrow> join '' '' (map word segs) | None \<Rightarrow> [])
            | None \<Rightarrow>
                (case out_segments fs of
                   Some segs \<Rightarrow> join '' '' (map word segs) | None \<Rightarrow> []))"
    by (simp add: structured_result_def structured_text_def js_or_def split: option.splits)
  from run conf body show ?thesis by blast
qed

theorem structured_result_text_and_confidence_witness:
  "map_outcome res_text
     (snd (py_transcribeAudio (new_PythonTranscriptionService plain_env)
        (plain_env\<lparr>json_parse := \<lambda>s. Inr (JsonMapping
            (no_fields\<lparr>out_segments := Some [seg ''hej'', seg ''du'']\<rparr>))\<rparr>)
        empty_world [] no_options))
   = Resolved ''hej du''"
proof -
  let ?fs = "no_fields\<lparr>out_segments := Some [seg ''hej'', seg ''du'']\<rparr>"
  let ?e = "plain_env\<lparr>json_parse := \<lambda>s. Inr (JsonMapping ?fs)\<rparr>"
  let ?svc = "new_PythonTranscriptionService plain_env"
  let ?p = "''temp_audio_transa/audio_1700000000000_k3j9x0q1z.wav''"
  have h1: "saveAudioBuffer ?svc ?e empty_world [] =
              (empty_world\<lparr>files := (files empty_world)(?p \<mapsto> [])\<rparr>, Inr ?p)"
    by (simp add: saveAudioBuffer_def path_join_def fixture_defs show_nat_now Let_def)
  have h2: "spawned ?e (spawn_args ?svc no_options ?p) = Closed (Some 0) ''{}'' []"
    by (simp add: plain_env_def)
  have h3: "opt_outputFormat no_options \<noteq> Some ''markdown''"
    by (simp add: no_options_def)
  have h4: "json_parse ?e ''{}'' = Inr (JsonMapping ?fs)"
    by (simp add: plain_env_def)
  from structured_result_text_and_confidence [OF h1 h2 h3 h4]
  show ?thesis by (simp add: no_fields_def seg_def or_default_def)
qed

text \<open>
  The claim as stated fails: a \<^verbatim>\<open>markdown\<close> field that is present but empty does
  not become the text when there are segments.
\<close>

theorem empty_markdown_counterexample:
  "out_markdown (no_fields\<lparr>out_markdown := Some [], out_segments := Some [seg ''hej'']\<rparr>) = Some []
   \<and> map_outcome res_text
     (snd (py_transcribeAudio (new_PythonTranscriptionService plain_env)
        (plain_env\<lparr>json_parse := \<lambda>s. Inr (JsonMapping
            (no_fields\<lparr>out_markdown := Some [], out_segments := Some [seg ''hej'']\<rparr>))\<rparr>)
        empty_world [] no_options))
   = Resolved ''hej''"
  by (simp add: py_transcribeAudio_def saveAudioBuffer_def path_join_def fixture_defs
        show_nat_now Let_def spawn_args_def on_close_def cleanupTempFile_def
        parsePythonOutput_def or_default_def structured_result_def structured_text_def
        js_or_def seg_def)

subsection \<open>C9: the mock strategy\<close>

text \<open>
  Claim C9, as the code has it. For every buffer that is not \<^verbatim>\<open>null\<close>, the empty one
  included, and random numbers that are doubles in \<open>[0, 1)\<close>, the mock resolves after a
  delay in \<open>[1000, 3000]\<close>, which is below 3000 when the random number is at most
  \<open>1 - 1 / 2 ^ 52\<close>, with a confidence from the number written \<^verbatim>\<open>0.7\<close> up to but
  not including 1, and a duration of the buffer's length over 16000.
\<close>

theorem mock_resolves_for_every_buffer:
  assumes "is_double (rnd_delay e) \<and> 0 \<le> rnd_delay e \<and> rnd_delay e < 1"
      and "is_double (rnd_confidence e) \<and> 0 \<le> rnd_confidence e \<and> rnd_confidence e < 1"
  shows "\<exists>d r. getMockTranscription e (Some buf) opts = Resolved (d, r)
           \<and> 1000 \<le> d \<and> d \<le> 3000
           \<and> (rnd_delay e \<le> 1 - 1 / 2 ^ 52 \<longrightarrow> d < 3000)
           \<and> lit 0.7 \<le> res_confidence r \<and> res_confidence r < 1
           \<and> res_duration r = Some (fdiv (real (length buf)) 16000)"
proof -
  let ?d = "fadd (fmul (rnd_delay e) 2000) 1000"
  let ?c = "fadd (fmul (rnd_confidence e) (lit 0.3)) (lit 0.7)"
  have d: "1000 \<le> ?d \<and> ?d \<le> 3000"
    using assms(1) by (intro delay_bounds) simp_all
  have d': "?d < 3000" if "rnd_delay e \<le> 1 - 1 / 2 ^ 52"
    using assms(1) that by (intro delay_below) simp_all
  have "rnd_confidence e \<le> 1 - 1 / 2 ^ 53"
    using assms(2) by (intro double_below_one) simp_all
  then have c: "lit 0.7 \<le> ?c \<and> ?c < 1"
    using assms(2) by (intro confidence_bounds) simp_all
  from d d' c show ?thesis
    by (simp add: getMockTranscription_def Let_def)
qed

theorem mock_resolves_for_every_buffer_witness:
  "getMockTranscription plain_env (Some [1, 2, 3]) no_options =
     Resolved (2000,
       \<lparr>res_text = ''This is sample text that would normally come from speech recognition.'',
        res_language = ''en'', res_confidence = 7656119366529843 / 2 ^ 53,
        res_speakers = None, res_segments = None,
        res_duration = Some (3458764513820541 / 2 ^ 64), res_totalWords = None,
        res_pipeline = None, res_raw = None, res_mock = Some True\<rparr>)"
proof -
  have h1: "is_double (rnd_delay plain_env) \<and> 0 \<le> rnd_delay plain_env \<and> rnd_delay plain_env < 1"
    by (simp add: plain_env_def is_double_def d64)
  have h2: "is_double (rnd_confidence plain_env) \<and> 0 \<le> rnd_confidence plain_env
            \<and> rnd_confidence plain_env < 1"
    by (simp add: plain_env_def is_double_def d64)
  from mock_resolves_for_every_buffer [OF h1 h2, of "[1, 2, 3]" no_options]
  obtain d r where "getMockTranscription plain_env (Some [1, 2, 3]) no_options = Resolved (d, r)"
    by blast
  then show ?thesis
    by (simp add: getMockTranscription_def Let_def plain_env_def no_options_def js_or_def
          mockResponses_def d64)
qed

text \<open>
  The claim as stated fails twice. On \<^verbatim>\<open>null\<close> the timer callback throws when it
  reads the length, and the promise is never resolved. And when the random number is the
  largest double below 1, the delay is rounded to exactly 3000.
\<close>

theorem mock_claim_counterexample:
  "getMockTranscription plain_env None no_options =
     Uncaught (TypeError (''Cannot read properties of null (reading '' @ [CHR 0x27]
                          @ ''length'' @ [CHR 0x27] @ '')''))
   \<and> is_double (1 - 1 / 2 ^ 53) \<and> (0::real) \<le> 1 - 1 / 2 ^ 53 \<and> (1::real) - 1 / 2 ^ 53 < 1
   \<and> map_outcome fst
       (getMockTranscription (plain_env\<lparr>rnd_delay := 1 - 1 / 2 ^ 53\<rparr>) (Some []) no_options)
     = Resolved 3000"
  by (simp add: getMockTranscription_def Let_def is_double_def plain_env_def mockResponses_def
        d64)

subsection \<open>C10: the language of a result\<close>

text \<open>
  Claim C10, as the code has it. A result of the subprocess strategy has the language
  \<^verbatim>\<open>sv\<close>, whatever was requested. A result of the OpenAI strategy has the language
  the response reports when that is a non-empty string, else the requested language,
  which is \<^verbatim>\<open>en\<close> when the options name none. A mock result has the requested
  language when that is a non-empty string, else \<^verbatim>\<open>en\<close>.
\<close>

theorem result_language_by_strategy:
  "(snd (py_transcribeAudio svc e w b opts) = Resolved r \<longrightarrow> res_language r = ''sv'')
   \<and> (snd (transcribeWithOpenAI e w b opts) = Resolved r \<longrightarrow>
        (\<exists>req resp. api_call e req = Inr resp
           \<and> req_language req = (case opt_language opts of None \<Rightarrow> ''en'' | Some l \<Rightarrow> l)
           \<and> res_language r =
               (case resp_language resp of
                  None \<Rightarrow> req_language req
                | Some l \<Rightarrow> if l \<noteq> [] then l else req_language req)))
   \<and> (getMockTranscription e a opts = Resolved (d, r) \<longrightarrow>
        res_language r =
          (case opt_language opts of None \<Rightarrow> ''en'' | Some l \<Rightarrow> if l \<noteq> [] then l else ''en''))"
proof -
  have py: "res_language r = ''sv''" if "snd (py_transcribeAudio svc e w b opts) = Resolved r"
    using py_resolved_tags [OF that] by simp
  have remote: "\<exists>req resp. api_call e req = Inr resp
           \<and> req_language req = (case opt_language opts of None \<Rightarrow> ''en'' | Some l \<Rightarrow> l)
           \<and> res_language r =
               (case resp_language resp of
                  None \<Rightarrow> req_language req
                | Some l \<Rightarrow> if l \<noteq> [] then l else req_language req)"
    if "snd (transcribeWithOpenAI e w b opts) = Resolved r"
    using that
    by (fastforce simp: transcribeWithOpenAI_def Let_def or_default_def js_or_def
          split: option.splits sum.splits)
  have mock: "res_language r =
          (case opt_language opts of None \<Rightarrow> ''en'' | Some l \<Rightarrow> if l \<noteq> [] then l else ''en'')"
    if "getMockTranscription e a opts = Resolved (d, r)"
    using that
    by (auto simp: getMockTranscription_def Let_def js_or_def split: option.splits)
  from py remote mock show ?thesis by blast
qed

theorem result_language_by_strategy_witness:
  "map_outcome res_language
     (snd (py_transcribeAudio (new_PythonTranscriptionService plain_env) plain_env empty_world []
             (no_options\<lparr>opt_language := Some ''fr''\<rparr>))) = Resolved ''sv''
   \<and> map_outcome res_language
     (snd (transcribeWithOpenAI (plain_env\<lparr>api_call := \<lambda>req. Inr hej_response\<rparr>) empty_world []
             (no_options\<lparr>opt_language := Some ''fr''\<rparr>))) = Resolved ''fr''
   \<and> map_outcome (res_language \<circ> snd)
         (getMockTranscription plain_env (Some []) no_options) = Resolved ''en''"
proof -
  let ?o = "no_options\<lparr>opt_language := Some ''fr''\<rparr>"
  let ?e = "plain_env\<lparr>api_call := \<lambda>req. Inr hej_response\<rparr>"
  obtain r1 where r1: "snd (py_transcribeAudio (new_PythonTranscriptionService plain_env)
                         plain_env empty_world [] ?o) = Resolved r1"
    by (simp add: eval_defs)
  obtain r2 where r2: "snd (transcribeWithOpenAI ?e empty_world [] ?o) = Resolved r2"
    by (simp add: eval_defs)
  obtain d r3 where r3: "getMockTranscription plain_env (Some []) no_options = Resolved (d, r3)"
    by (simp add: getMockTranscription_def Let_def)
  have a: "res_language r1 = ''sv''"
    using result_language_by_strategy
            [where svc = "new_PythonTranscriptionService plain_env" and e = plain_env
               and w = empty_world and b = "[]" and opts = ?o and r = r1] r1
    by blast
  have "\<exists>req resp. api_call ?e req = Inr resp
           \<and> req_language req = (case opt_language ?o of None \<Rightarrow> ''en'' | Some l \<Rightarrow> l)
           \<and> res_language r2 =
               (case resp_language resp of
                  None \<Rightarrow> req_language req
                | Some l \<Rightarrow> if l \<noteq> [] then l else req_language req)"
    using result_language_by_strategy
            [where e = ?e and w = empty_world and b = "[]" and opts = ?o and r = r2] r2
    by blast
  then have b: "res_language r2 = ''fr''"
    by (auto simp: plain_env_def hej_response_def no_options_def)
  have c: "res_language r3 = ''en''"
    using result_language_by_strategy
            [where e = plain_env and a = "Some []" and opts = no_options and d = d and r = r3] r3
    by (simp add: no_options_def)
  from a b c r1 r2 r3 show ?thesis by simp
qed

text \<open>
  The claim as stated fails: a call that requests \<^verbatim>\<open>en\<close> and is served by the
  subprocess strategy gets \<^verbatim>\<open>sv\<close>.
\<close>

theorem subprocess_language_counterexample:
  "map_outcome res_language
     (snd (transcribeAudio (new_TranscriptionService plain_env) plain_env empty_world []
             (no_options\<lparr>opt_language := Some ''en''\<rparr>))) = Resolved ''sv''"
  by (simp add: eval_defs)

end
